theory Spec2Isabelle
  imports
    Complex_Main
    "HOL-Library.Char_ord"
    "HOL-Library.List_Lexorder"
    "HOL-Library.Product_Lexorder"
begin

section \<open>Tables\<close>

text \<open>
  The script \<^verbatim>\<open>cluster_code.py\<close> works on pandas data frames. A cell of a frame is a
  missing value (\<open>NaN\<close>, the float that \<^verbatim>\<open>read_csv\<close> puts where the file has an empty
  field, or \<open>NA\<close>, the \<^verbatim>\<open>pd.NA\<close> that \<^verbatim>\<open>replace('..', pd.NA)\<close> writes), a string or a
  number. Numbers are reals: the loader and the reshaper move values without computing
  on them. Column labels are cells too, since the pivot turns the values of the column
  \<^verbatim>\<open>Series Name\<close> into labels.

  A frame is the list of its columns, each a label with the values of the column from
  the first row to the last.
\<close>

datatype cell = NaN | NA | Str string | Num real

type_synonym column = "cell \<times> cell list"
type_synonym frame = "column list"

text \<open>The exceptions the script can end with. \<open>EmptyDataError\<close> and \<open>ParserError\<close> are
  the errors of pandas (both are subclasses of \<^verbatim>\<open>ValueError\<close> and are kept apart from it
  here). The last three are the error kinds the specification names; no statement of the
  script raises \<open>DataFormatError\<close> or \<open>FitConvergenceError\<close>, and \<open>InvalidParameterError\<close> is
  raised by the parameter validation of scikit-learn only.\<close>

datatype exn =
    FileNotFoundError | PermissionError | UnicodeDecodeError | EmptyDataError | ParserError
  | KeyError | ValueError | TypeError | AttributeError | RuntimeError
  | DataFormatError | InvalidParameterError | FitConvergenceError

fun isna :: "cell \<Rightarrow> bool" where
  "isna NaN = True"
| "isna NA = True"
| "isna (Str s) = False"
| "isna (Num x) = False"

definition labels :: "frame \<Rightarrow> cell list" where
  "labels df = map fst df"

definition nrows :: "frame \<Rightarrow> nat" where
  "nrows df = (case df of [] \<Rightarrow> 0 | (l, cs) # _ \<Rightarrow> length cs)"

definition wf_frame :: "frame \<Rightarrow> bool" where
  "wf_frame df = (distinct (labels df) \<and> list_all (\<lambda>(l, cs). length cs = nrows df) df)"

definition row :: "frame \<Rightarrow> nat \<Rightarrow> cell list" where
  "row df i = map (\<lambda>(l, cs). cs ! i) df"

definition rows :: "frame \<Rightarrow> cell list list" where
  "rows df = map (row df) [0..<nrows df]"

definition select_rows :: "nat list \<Rightarrow> frame \<Rightarrow> frame" where
  "select_rows is df = map (\<lambda>(l, cs). (l, map (\<lambda>i. cs ! i) is)) df"

definition get_column :: "frame \<Rightarrow> cell \<Rightarrow> exn + cell list" where
  "get_column df l = (case map_of df l of None \<Rightarrow> Inl KeyError | Some cs \<Rightarrow> Inr cs)"

section \<open>The loader: \<^verbatim>\<open>read_data\<close>, lines 32 to 52\<close>

text \<open>\<^verbatim>\<open>pd.read_csv(filename)\<close>: the file parses to a frame, or pandas raises: the path
  names no file or a file that may not be read, the bytes are not UTF-8, the file is
  empty (\<open>EmptyDataError\<close>), or a line has more fields than the header
  (\<open>ParserError\<close>).\<close>

datatype unreadable = No_such_file | No_permission | Not_utf8 | No_columns | Uneven_lines

datatype csv_file = Unreadable unreadable | Csv frame

fun read_csv :: "csv_file \<Rightarrow> exn + frame" where
  "read_csv (Unreadable No_such_file) = Inl FileNotFoundError"
| "read_csv (Unreadable No_permission) = Inl PermissionError"
| "read_csv (Unreadable Not_utf8) = Inl UnicodeDecodeError"
| "read_csv (Unreadable No_columns) = Inl EmptyDataError"
| "read_csv (Unreadable Uneven_lines) = Inl ParserError"
| "read_csv (Csv df) = Inr df"

text \<open>\<^verbatim>\<open>wdi_data.replace('..', pd.NA)\<close>\<close>

definition replace_cell :: "cell \<Rightarrow> cell" where
  "replace_cell c = (if c = Str ''..'' then NA else c)"

definition replace_dots :: "frame \<Rightarrow> frame" where
  "replace_dots df = map (\<lambda>(l, cs). (l, map replace_cell cs)) df"

text \<open>\<^verbatim>\<open>fillna(method='ffill')\<close> walks down a column; the first cell stays, and a missing
  cell below it takes what the cell above it holds after the fill. So a missing cell gets
  the last value above it that is not missing, and the missing cells above the first
  value get the kind of missing value of the first cell. \<^verbatim>\<open>fillna(method='bfill')\<close> is
  the same walk from the bottom up.\<close>

fun ffill_from :: "cell \<Rightarrow> cell list \<Rightarrow> cell list" where
  "ffill_from prev [] = []"
| "ffill_from prev (c # cs) =
     (if isna c then prev # ffill_from prev cs else c # ffill_from c cs)"

definition ffill_col :: "cell list \<Rightarrow> cell list" where
  "ffill_col cs = (case cs of [] \<Rightarrow> [] | c # rest \<Rightarrow> c # ffill_from c rest)"

fun bfill_col :: "cell list \<Rightarrow> cell list" where
  "bfill_col [] = []"
| "bfill_col (c # cs) =
     (let rest = bfill_col cs in
      (if isna c then (case rest of [] \<Rightarrow> c | next # _ \<Rightarrow> next) else c) # rest)"

definition fillna_ffill :: "frame \<Rightarrow> frame" where
  "fillna_ffill df = map (\<lambda>(l, cs). (l, ffill_col cs)) df"

definition fillna_bfill :: "frame \<Rightarrow> frame" where
  "fillna_bfill df = map (\<lambda>(l, cs). (l, bfill_col cs)) df"

text \<open>Line 38: \<^verbatim>\<open>wdi_data.fillna(method='ffill').fillna(method='bfill')\<close>\<close>

definition fill_missing :: "frame \<Rightarrow> frame" where
  "fill_missing df = fillna_bfill (fillna_ffill df)"

text \<open>\<^verbatim>\<open>drop_duplicates()\<close> keeps a row unless an earlier row equals it in every column.\<close>

definition duplicated :: "frame \<Rightarrow> nat \<Rightarrow> bool" where
  "duplicated df i = (row df i \<in> set (map (row df) [0..<i]))"

definition drop_duplicates :: "frame \<Rightarrow> frame" where
  "drop_duplicates df = select_rows (filter (\<lambda>i. \<not> duplicated df i) [0..<nrows df]) df"

text \<open>\<^verbatim>\<open>wdi_data.drop(wdi_data.index[1519:], inplace=True)\<close>: the index labels are unique,
  so dropping the labels found from position 1519 on keeps the first 1519 rows.\<close>

definition drop_tail_rows :: "nat \<Rightarrow> frame \<Rightarrow> frame" where
  "drop_tail_rows n df = map (\<lambda>(l, cs). (l, take n cs)) df"

text \<open>\<^verbatim>\<open>drop([...], axis=1)\<close> raises \<^verbatim>\<open>KeyError\<close> when a label is not a column.\<close>

definition drop_columns :: "cell list \<Rightarrow> frame \<Rightarrow> exn + frame" where
  "drop_columns ls df =
     (if \<forall>l \<in> set ls. l \<in> set (labels df)
      then Inr (filter (\<lambda>(l, cs). l \<notin> set ls) df)
      else Inl KeyError)"

text \<open>The columns the script names: line 47 and line 57.\<close>

definition code_columns :: "cell list" where
  "code_columns = [Str ''Country Code'', Str ''Series Code'']"


definition year_columns :: "cell list" where
  "year_columns = [Str ''1980'', Str ''1985'', Str ''1990'', Str ''1995'',
                   Str ''2000'', Str ''2005'', Str ''2010'', Str ''2015'', Str ''2020'']"

text \<open>\<^verbatim>\<open>astype(float)\<close> on one value. The float of a string is Python's \<^verbatim>\<open>float(s)\<close>, taken
  as the parameter \<open>float_of\<close> (\<open>None\<close> where Python raises \<^verbatim>\<open>ValueError\<close>);
  \<^verbatim>\<open>float(pd.NA)\<close> raises \<^verbatim>\<open>TypeError\<close>.\<close>

fun astype_float :: "(string \<Rightarrow> real option) \<Rightarrow> cell \<Rightarrow> exn + cell" where
  "astype_float float_of NaN = Inr NaN"
| "astype_float float_of NA = Inl TypeError"
| "astype_float float_of (Num x) = Inr (Num x)"
| "astype_float float_of (Str s) =
     (case float_of s of None \<Rightarrow> Inl ValueError | Some x \<Rightarrow> Inr (Num x))"

text \<open>A list of results is the list of the values, or the first error.\<close>

fun collect :: "(exn + 'a) list \<Rightarrow> exn + 'a list" where
  "collect [] = Inr []"
| "collect (Inl e # rs) = Inl e"
| "collect (Inr x # rs) = (case collect rs of Inl e \<Rightarrow> Inl e | Inr xs \<Rightarrow> Inr (x # xs))"

text \<open>Lines 50 to 52: the selection \<^verbatim>\<open>wdi_data[[...]]\<close> raises \<^verbatim>\<open>KeyError\<close> when a
  year column is absent; the converted columns are written back in place.\<close>

definition convert_columns ::
  "(string \<Rightarrow> real option) \<Rightarrow> cell list \<Rightarrow> frame \<Rightarrow> exn + frame" where
  "convert_columns float_of ls df =
     (if \<forall>l \<in> set ls. l \<in> set (labels df)
      then collect (map (\<lambda>(l, cs).
             if l \<in> set ls
             then (case collect (map (astype_float float_of) cs) of
                     Inl e \<Rightarrow> Inl e | Inr cs' \<Rightarrow> Inr (l, cs'))
             else Inr (l, cs)) df)
      else Inl KeyError)"

text \<open>The positions, in the file, of the rows that lines 41 to 44 keep: those that repeat
  no earlier row of the filled table, and of these the first 1519.\<close>

definition kept_rows :: "frame \<Rightarrow> nat list" where
  "kept_rows raw =
     take 1519 (filter (\<lambda>i. \<not> duplicated (fill_missing (replace_dots raw)) i)
                       [0..<nrows (fill_missing (replace_dots raw))])"

text \<open>Lines 32 to 52, up to the frame that \<^verbatim>\<open>read_data\<close> returns first.\<close>

definition clean :: "(string \<Rightarrow> real option) \<Rightarrow> csv_file \<Rightarrow> exn + frame" where
  "clean float_of f =
     (case read_csv f of
        Inl e \<Rightarrow> Inl e
      | Inr raw \<Rightarrow>
          (let filled = fill_missing (replace_dots raw);
               trimmed = drop_tail_rows 1519 (drop_duplicates filled)
           in case drop_columns code_columns trimmed of
                Inl e \<Rightarrow> Inl e
              | Inr named \<Rightarrow> convert_columns float_of year_columns named))"

section \<open>The reshaper: \<^verbatim>\<open>read_data\<close>, lines 56 to 70\<close>

text \<open>A row of a long table: the two identifier values, the label of the column the
  value came from, and the value.\<close>

type_synonym long_row = "cell \<times> cell \<times> cell \<times> cell"

text \<open>\<^verbatim>\<open>pd.melt\<close> with two identifier columns: every other column, in the order of the
  frame, gives one long row for each row of the frame.\<close>

definition melt_rows :: "cell \<Rightarrow> cell \<Rightarrow> frame \<Rightarrow> long_row list" where
  "melt_rows id1 id2 df =
     (case (map_of df id1, map_of df id2) of
        (Some xs, Some ys) \<Rightarrow>
          concat (map (\<lambda>(l, vs). map (\<lambda>((x, y), v). (x, y, l, v)) (zip (zip xs ys) vs))
                      (filter (\<lambda>(l, vs). l \<noteq> id1 \<and> l \<noteq> id2) df))
      | _ \<Rightarrow> [])"

text \<open>\<^verbatim>\<open>pd.melt(wdi_data, id_vars=[...], var_name='Year', value_name='Value')\<close>: a column
  already named by \<^verbatim>\<open>value_name\<close> is a \<^verbatim>\<open>ValueError\<close>, an absent identifier column a
  \<^verbatim>\<open>KeyError\<close>.\<close>

definition melt :: "cell \<Rightarrow> cell \<Rightarrow> cell \<Rightarrow> frame \<Rightarrow> exn + long_row list" where
  "melt id1 id2 value_name df =
     (if value_name \<in> set (labels df) then Inl ValueError
      else if id1 \<notin> set (labels df) \<or> id2 \<notin> set (labels df) then Inl KeyError
      else Inr (melt_rows id1 id2 df))"

text \<open>The order pandas sorts group keys in: numbers by value, strings by code point.\<close>

fun cell_key :: "cell \<Rightarrow> nat \<times> real \<times> string" where
  "cell_key (Num x) = (0, x, [])"
| "cell_key (Str s) = (1, 0, s)"
| "cell_key NaN = (2, 0, [])"
| "cell_key NA = (3, 0, [])"

definition index_key :: "cell \<times> cell \<Rightarrow> (nat \<times> real \<times> string) \<times> (nat \<times> real \<times> string)" where
  "index_key p = (cell_key (fst p), cell_key (snd p))"

text \<open>\<^verbatim>\<open>pivot_table(index=['Year', 'Country Name'], columns='Series Name', values='Value',
  aggfunc='first')\<close> on the long rows (series, country, year, value). It groups by
  (year, country, series), leaving out rows with a missing key; \<^verbatim>\<open>first\<close> is the first
  value of the group that is not missing; a group with no such value is dropped
  (\<^verbatim>\<open>dropna=True\<close>); the groups left give the index and the columns, both sorted, and
  a cell with no group is \<open>NaN\<close>.\<close>

definition first_value :: "long_row list \<Rightarrow> cell \<Rightarrow> cell \<Rightarrow> cell \<Rightarrow> cell option" where
  "first_value long y c s =
     find (\<lambda>v. \<not> isna v)
       (map (\<lambda>(s', c', y', v). v) (filter (\<lambda>(s', c', y', v). y' = y \<and> c' = c \<and> s' = s) long))"

definition grouped :: "long_row list \<Rightarrow> long_row list" where
  "grouped long = filter (\<lambda>(s, c, y, v). \<not> isna y \<and> \<not> isna c \<and> \<not> isna s \<and> \<not> isna v) long"

definition pivot_index :: "long_row list \<Rightarrow> (cell \<times> cell) list" where
  "pivot_index long = sort_key index_key (remdups (map (\<lambda>(s, c, y, v). (y, c)) (grouped long)))"

definition pivot_columns :: "long_row list \<Rightarrow> cell list" where
  "pivot_columns long = sort_key cell_key (remdups (map (\<lambda>(s, c, y, v). s) (grouped long)))"

definition pivot_cell :: "long_row list \<Rightarrow> cell \<Rightarrow> cell \<Rightarrow> cell \<Rightarrow> cell" where
  "pivot_cell long y c s = (case first_value long y c s of None \<Rightarrow> NaN | Some v \<Rightarrow> v)"

text \<open>The pivot followed by \<^verbatim>\<open>reset_index(inplace=True)\<close>, which turns the two index levels
  into the first two columns and raises \<^verbatim>\<open>ValueError\<close> when a column has one of their
  names already.\<close>

definition pivot_table :: "cell \<Rightarrow> cell \<Rightarrow> long_row list \<Rightarrow> exn + frame" where
  "pivot_table year_name country_name long =
     (let idx = pivot_index long; cols = pivot_columns long
      in if year_name \<in> set cols \<or> country_name \<in> set cols then Inl ValueError
         else Inr ((year_name, map fst idx) # (country_name, map snd idx) #
                   map (\<lambda>s. (s, map (\<lambda>(y, c). pivot_cell long y c s) idx)) cols))"

definition reshape :: "frame \<Rightarrow> exn + frame" where
  "reshape df =
     (case melt (Str ''Series Name'') (Str ''Country Name'') (Str ''Value'') df of
        Inl e \<Rightarrow> Inl e
      | Inr long \<Rightarrow> pivot_table (Str ''Year'') (Str ''Country Name'') long)"

definition read_data :: "(string \<Rightarrow> real option) \<Rightarrow> csv_file \<Rightarrow> exn + frame \<times> frame" where
  "read_data float_of f =
     (case clean float_of f of
        Inl e \<Rightarrow> Inl e
      | Inr wdi_data \<Rightarrow>
          (case reshape wdi_data of
             Inl e \<Rightarrow> Inl e
           | Inr wdi_transposed \<Rightarrow> Inr (wdi_data, wdi_transposed)))"

section \<open>Objects and the names bound to them\<close>

text \<open>
  A data frame is a mutable object, and \<^verbatim>\<open>visualize\<close> and \<^verbatim>\<open>cluster_data\<close> receive a
  reference to the caller's frame. The heap lists the frames allocated so far; a
  reference is a position in it. A function takes the heap and gives back the heap it
  leaves, with the exception it ended with or its result.
\<close>

type_synonym ref = nat
type_synonym heap = "frame list"

definition alloc :: "frame \<Rightarrow> heap \<Rightarrow> ref \<times> heap" where
  "alloc df h = (length h, h @ [df])"

text \<open>\<^verbatim>\<open>df[label] = values\<close> and \<^verbatim>\<open>df.loc[:, label] = values\<close>: the column is overwritten
  where it stands, or added as the last column.\<close>

definition set_column :: "cell \<Rightarrow> cell list \<Rightarrow> frame \<Rightarrow> frame" where
  "set_column l vs df =
     (if l \<in> set (labels df)
      then map (\<lambda>(l', cs). if l' = l then (l', vs) else (l', cs)) df
      else df @ [(l, vs)])"

section \<open>\<^verbatim>\<open>visualize\<close>, lines 79 to 109\<close>

text \<open>\<^verbatim>\<open>rank(ascending=False)\<close>: the rank of a value is the number of values greater than
  it plus the mean position among the values equal to it; a missing value has rank
  \<open>NaN\<close>.\<close>

definition rank_desc :: "cell list \<Rightarrow> cell list" where
  "rank_desc vs =
     map (\<lambda>v. if isna v then NaN
              else Num (real (length (filter (\<lambda>w. \<not> isna w \<and> cell_key v < cell_key w) vs))
                        + (real (length (filter (\<lambda>w. w = v) vs)) + 1) / 2)) vs"

text \<open>\<^verbatim>\<open>sort_values(label)\<close>: the rows in ascending order of the column, missing values
  last. The default sort of pandas is not stable: rows with equal values come in an
  order that numpy chooses, given here by \<open>tie\<close>, which ranks the positions for a list of
  keys. \<^verbatim>\<open>head(n)\<close>: the first \<open>n\<close> rows.\<close>

type_synonym tie_break = "(nat \<times> real \<times> string) list \<Rightarrow> nat \<Rightarrow> nat"

definition sort_values :: "tie_break \<Rightarrow> cell \<Rightarrow> frame \<Rightarrow> exn + frame" where
  "sort_values tie l df =
     (case map_of df l of
        None \<Rightarrow> Inl KeyError
      | Some ks \<Rightarrow>
          Inr (select_rows
                 (sort_key (\<lambda>i. (cell_key (ks ! i), tie (map cell_key ks) i)) [0..<length ks])
                 df))"

definition head_rows :: "nat \<Rightarrow> frame \<Rightarrow> frame" where
  "head_rows n df = map (\<lambda>(l, cs). (l, take n cs)) df"

text \<open>\<^verbatim>\<open>indicator.split('(')[0]\<close>, an \<^verbatim>\<open>AttributeError\<close> when the label is not a string.\<close>

fun title_text :: "cell \<Rightarrow> exn + string" where
  "title_text (Str s) = Inr (takeWhile (\<lambda>c. c \<noteq> CHR ''('') s)"
| "title_text c = Inl AttributeError"

text \<open>What \<^verbatim>\<open>plt.show()\<close> displays for one indicator: the title, and the bars from top to
  bottom, each a country with its value.\<close>

record figure =
  title :: string
  bars :: "(cell \<times> cell) list"

text \<open>The body of the loop, lines 90 to 109. The frame selected by the mask and copied is
  a new object, and so is the sorted one; the rank is written into the copy.\<close>

definition visualize_one ::
  "tie_break \<Rightarrow> ref \<Rightarrow> cell \<Rightarrow> heap \<Rightarrow> heap \<times> (exn + figure)" where
  "visualize_one tie data_frame indicator h =
     (case get_column (h ! data_frame) (Str ''Year'') of
        Inl e \<Rightarrow> (h, Inl e)
      | Inr years \<Rightarrow>
          (let (plot_data, h1) =
                 alloc (select_rows (filter (\<lambda>i. years ! i = Str ''2020'') [0..<length years])
                                    (h ! data_frame)) h
           in case get_column (h1 ! plot_data) indicator of
                Inl e \<Rightarrow> (h1, Inl e)
              | Inr vs \<Rightarrow>
                  (let h2 = h1[plot_data := set_column (Str ''Rank'') (rank_desc vs) (h1 ! plot_data)]
                   in case sort_values tie (Str ''Rank'') (h2 ! plot_data) of
                        Inl e \<Rightarrow> (h2, Inl e)
                      | Inr ranked \<Rightarrow>
                          (let (plot_data', h3) = alloc (head_rows 10 ranked) h2
                           in case sort_values tie (Str ''Rank'') (h3 ! plot_data') of
                                Inl e \<Rightarrow> (h3, Inl e)
                              | Inr ordered \<Rightarrow>
                                  (case get_column ordered (Str ''Country Name'') of
                                     Inl e \<Rightarrow> (h3, Inl e)
                                   | Inr countries \<Rightarrow>
                                       (case get_column ordered indicator of
                                          Inl e \<Rightarrow> (h3, Inl e)
                                        | Inr xs \<Rightarrow>
                                            (case title_text indicator of
                                               Inl e \<Rightarrow> (h3, Inl e)
                                             | Inr t \<Rightarrow>
                                                 (h3, Inr \<lparr>title = ''Top 10 Countries: '' @ t,
                                                           bars = zip countries xs\<rparr>))))))))"

fun visualize_loop ::
  "tie_break \<Rightarrow> ref \<Rightarrow> cell list \<Rightarrow> heap \<Rightarrow> figure list
   \<Rightarrow> heap \<times> figure list \<times> exn option" where
  "visualize_loop tie data_frame [] h figs = (h, figs, None)"
| "visualize_loop tie data_frame (indicator # rest) h figs =
     (case visualize_one tie data_frame indicator h of
        (h', Inl e) \<Rightarrow> (h', figs, Some e)
      | (h', Inr fig) \<Rightarrow> visualize_loop tie data_frame rest h' (figs @ [fig]))"

definition visualize ::
  "tie_break \<Rightarrow> ref \<Rightarrow> cell list \<Rightarrow> heap \<Rightarrow> heap \<times> figure list \<times> exn option" where
  "visualize tie data_frame indicators h = visualize_loop tie data_frame indicators h []"

section \<open>\<^verbatim>\<open>cluster_data\<close>, lines 119 to 148\<close>

text \<open>\<^verbatim>\<open>select_dtypes(include=np.number)\<close> keeps the columns of numbers; a float column may
  hold \<open>NaN\<close>.\<close>

fun is_number :: "cell \<Rightarrow> bool" where
  "is_number (Num x) = True"
| "is_number NaN = True"
| "is_number c = False"

definition select_numeric :: "frame \<Rightarrow> frame" where
  "select_numeric df = filter (\<lambda>(l, cs). list_all is_number cs) df"

text \<open>Modelled from the spec: the function \<^verbatim>\<open>scaler\<close> of the module \<^verbatim>\<open>cluster_tools\<close>, which
  the script imports and which is not among the sources. The specification asks for the
  column-wise min-max normalisation, returned with the minimum and the maximum of every
  column, a column whose minimum and maximum are equal being mapped to 0. Missing values
  are skipped by the minimum and the maximum and stay missing.\<close>

definition scale_column :: "cell list \<Rightarrow> cell list \<times> cell \<times> cell" where
  "scale_column cs =
     (case [x. Num x \<leftarrow> cs] of
        [] \<Rightarrow> (cs, NaN, NaN)
      | x # xs \<Rightarrow>
          (let lo = fold min xs x; hi = fold max xs x
           in (map (\<lambda>c. case c of
                          Num v \<Rightarrow> Num (if hi = lo then 0 else (v - lo) / (hi - lo))
                        | _ \<Rightarrow> c) cs,
               Num lo, Num hi)))"

definition scaler :: "frame \<Rightarrow> frame \<times> column list \<times> column list" where
  "scaler df =
     (map (\<lambda>(l, cs). (l, fst (scale_column cs))) df,
      map (\<lambda>(l, cs). (l, [fst (snd (scale_column cs))])) df,
      map (\<lambda>(l, cs). (l, [snd (snd (scale_column cs))])) df)"

text \<open>
  \<^verbatim>\<open>KMeans(n_clusters=n_clusters, random_state=0)\<close> and \<^verbatim>\<open>model.fit\<close>, as scikit-learn
  (version 1.2 and later) documents them.

  A generator is known by the seed it was made from and the number of draws made since.
  \<^verbatim>\<open>check_random_state\<close> makes a new generator from an integer seed and uses the
  generator of the process when the seed is \<^verbatim>\<open>None\<close>.
\<close>

datatype rng = RandomState int nat

fun check_random_state :: "int option \<Rightarrow> rng \<Rightarrow> rng" where
  "check_random_state None ambient = ambient"
| "check_random_state (Some seed) ambient = RandomState seed 0"

text \<open>The matrix \<^verbatim>\<open>fit\<close> works on, row by row. \<^verbatim>\<open>check_array\<close> raises \<^verbatim>\<open>ValueError\<close> for a
  matrix that has no column, no row, or a missing value.\<close>

fun number_of :: "cell \<Rightarrow> real" where
  "number_of (Num x) = x"
| "number_of c = 0"

fun is_finite :: "cell \<Rightarrow> bool" where
  "is_finite (Num x) = True"
| "is_finite c = False"

definition check_array :: "frame \<Rightarrow> exn + real list list" where
  "check_array df =
     (if df = [] \<or> nrows df = 0 \<or> list_ex (\<lambda>(l, cs). list_ex (\<lambda>c. \<not> is_finite c) cs) df
      then Inl ValueError
      else Inr (map (\<lambda>i. map (\<lambda>(l, cs). number_of (cs ! i)) df) [0..<nrows df]))"

text \<open>The label of a row is the position of the nearest centre, the first one among
  equally near centres.\<close>

definition sqdist :: "real list \<Rightarrow> real list \<Rightarrow> real" where
  "sqdist x c = sum_list (map (\<lambda>(a, b). (a - b)\<^sup>2) (zip x c))"

fun argmin :: "real list \<Rightarrow> nat" where
  "argmin [] = 0"
| "argmin [d] = 0"
| "argmin (d # ds) = (let j = argmin ds in if d \<le> ds ! j then 0 else Suc j)"

text \<open>
  The \<open>n_clusters\<close> centres are computed by the library from the matrix and the generator
  (k-means++ seeding, then Lloyd's iterations); \<open>centre g X k j\<close> stands for centre \<open>j\<close>
  of the \<open>k\<close>. \<^verbatim>\<open>fit\<close> validates \<open>n_clusters\<close> first (\<open>InvalidParameterError\<close> unless it is
  an integer from 1 up), then the matrix, then raises \<^verbatim>\<open>ValueError\<close> when there are fewer
  rows than clusters; otherwise \<^verbatim>\<open>labels_\<close> holds the label of every row.
\<close>

type_synonym centres = "rng \<Rightarrow> real list list \<Rightarrow> nat \<Rightarrow> nat \<Rightarrow> real list"

definition kmeans_fit :: "centres \<Rightarrow> int \<Rightarrow> rng \<Rightarrow> frame \<Rightarrow> exn + nat list" where
  "kmeans_fit centre n_clusters random_state df =
     (if n_clusters < 1 then Inl InvalidParameterError
      else case check_array df of
             Inl e \<Rightarrow> Inl e
           | Inr X \<Rightarrow>
               if int (length X) < n_clusters then Inl ValueError
               else Inr (map (\<lambda>x. argmin (map (\<lambda>j. sqdist x (centre random_state X (nat n_clusters) j))
                                               [0..<nat n_clusters])) X))"

text \<open>\<^verbatim>\<open>cluster_data(df, n_clusters)\<close>; the script calls it with the default
  \<^verbatim>\<open>n_clusters=4\<close>. \<open>ambient\<close> is the generator of the process at the time of the call.\<close>

definition cluster_data ::
  "centres \<Rightarrow> rng \<Rightarrow> ref \<Rightarrow> int \<Rightarrow> heap \<Rightarrow> heap \<times> (exn + ref \<times> frame)" where
  "cluster_data centre ambient df n_clusters h =
     (let (cluster_df, h1) = alloc (h ! df) h;
          (normalized_data, data_min, data_max) = scaler (select_numeric (h1 ! cluster_df))
      in case kmeans_fit centre n_clusters (check_random_state (Some 0) ambient) normalized_data of
           Inl e \<Rightarrow> (h1, Inl e)
         | Inr cluster_labels \<Rightarrow>
             (h1[cluster_df := set_column (Str ''Cluster'') (map (\<lambda>l. Num (real l)) cluster_labels)
                                 (h1 ! cluster_df)],
              Inr (cluster_df, normalized_data)))"

section \<open>\<^verbatim>\<open>fit_model_with_errors\<close>, lines 198 to 245\<close>

text \<open>
  Arithmetic is over the reals. The fitted function is applied to every element of
  \<open>x\<close>, as numpy does for \<^verbatim>\<open>linear_function\<close>. What scipy and statsmodels compute is taken
  as given: \<^verbatim>\<open>curve_fit\<close> returns the parameters and their covariance matrix or raises;
  the regression gives a fitted model, its predictions and its interval at level
  \<open>alpha\<close>.
\<close>

definition linear_function :: "real \<Rightarrow> real \<Rightarrow> real \<Rightarrow> real" where
  "linear_function x a b = a * x + b"

type_synonym model_fun = "real \<Rightarrow> real list \<Rightarrow> real"

record 'm numerics =
  curve_fit :: "model_fun \<Rightarrow> real list \<Rightarrow> real list \<Rightarrow> real list option
                \<Rightarrow> exn + real list \<times> real list list"
  ols_fit :: "real list \<Rightarrow> real list \<Rightarrow> exn + 'm"
  ols_predict :: "'m \<Rightarrow> real list \<Rightarrow> real list"
  ols_conf_int :: "'m \<Rightarrow> real list \<Rightarrow> real \<Rightarrow> exn + (real \<times> real) list"
  jacobian :: "model_fun \<Rightarrow> real \<Rightarrow> real list \<Rightarrow> real list"

text \<open>Modelled from the spec: the function \<^verbatim>\<open>error_prop\<close> of the module \<^verbatim>\<open>errors\<close>, which the
  script imports and which is not among the sources. The specification gives the
  standard error of the prediction at \<open>x\<close> as the square root of \<open>J \<Sigma> J\<^sup>T\<close>, with \<open>\<Sigma>\<close> the
  covariance matrix and \<open>J\<close> the Jacobian of the fitted function with respect to the
  parameters at \<open>x\<close>, evaluated numerically or analytically.\<close>

definition quad_form :: "real list \<Rightarrow> real list list \<Rightarrow> real" where
  "quad_form J S =
     sum_list (map (\<lambda>j. sum_list (map (\<lambda>k. J ! j * (S ! j ! k) * J ! k) [0..<length J]))
                   [0..<length J])"

definition error_prop ::
  "(model_fun \<Rightarrow> real \<Rightarrow> real list \<Rightarrow> real list) \<Rightarrow> real list \<Rightarrow> model_fun \<Rightarrow> real list
   \<Rightarrow> real list list \<Rightarrow> real list" where
  "error_prop jac x func parameter covar = map (\<lambda>xi. sqrt (quad_form (jac func xi parameter) covar)) x"

record fit_result =
  popt :: "real list"
  pcov :: "real list list"
  predictions_curve_fit :: "real list"
  predictions_ols :: "real list"
  lowerbound_curve_fit :: "real list"
  upperbound_curve_fit :: "real list"
  lowerbound_ols :: "real list"
  upperbound_ols :: "real list"

definition fit_model_with_errors ::
  "'m numerics \<Rightarrow> real list \<Rightarrow> real list \<Rightarrow> model_fun \<Rightarrow> real list option \<Rightarrow> real
   \<Rightarrow> exn + fit_result" where
  "fit_model_with_errors lib x y func initial_guess alpha =
     (case curve_fit lib func x y initial_guess of
        Inl e \<Rightarrow> Inl e
      | Inr fitted \<Rightarrow>
          (let popt = fst fitted; pcov = snd fitted;
               predictions_curve_fit = map (\<lambda>xi. func xi popt) x
           in case ols_fit lib y x of
                Inl e \<Rightarrow> Inl e
              | Inr model_ols \<Rightarrow>
                  (let predictions_ols = ols_predict lib model_ols x;
                       sigma_curve_fit = error_prop (jacobian lib) x func popt pcov;
                       lowerbound_curve_fit =
                         map (\<lambda>(p, s). p - s) (zip predictions_curve_fit sigma_curve_fit);
                       upperbound_curve_fit =
                         map (\<lambda>(p, s). p + s) (zip predictions_curve_fit sigma_curve_fit)
                   in case ols_conf_int lib model_ols x alpha of
                        Inl e \<Rightarrow> Inl e
                      | Inr conf_int_ols \<Rightarrow>
                          Inr \<lparr>popt = popt, pcov = pcov,
                               predictions_curve_fit = predictions_curve_fit,
                               predictions_ols = predictions_ols,
                               lowerbound_curve_fit = lowerbound_curve_fit,
                               upperbound_curve_fit = upperbound_curve_fit,
                               lowerbound_ols = map fst conf_int_ols,
                               upperbound_ols = map snd conf_int_ols\<rparr>)))"

section \<open>Inputs used in evaluations\<close>

text \<open>A pivoted table of three countries whose indicator has two distinct values, and a
  stand-in for the centres the library computes: the first rows of the matrix.\<close>

definition three_rows :: frame where
  "three_rows =
     [(Str ''Year'', [Str ''2020'', Str ''2020'', Str ''2020'']),
      (Str ''Country Name'', [Str ''Chad'', Str ''Kenya'', Str ''Mali'']),
      (Str ''CO2'', [Num 0, Num 0, Num 1])]"

definition first_rows :: centres where
  "first_rows g X k j = X ! j"




text \<open>A file of three countries whose column \<^verbatim>\<open>1980\<close> has the value 3 for the second country
  and \<^verbatim>\<open>..\<close> for the others, and whose other year columns are empty; a stand-in for
  Python's \<^verbatim>\<open>float\<close> on the one string that occurs; the table after line 38, after
  line 47 and as \<^verbatim>\<open>read_data\<close> returns it, its long form and its pivot.\<close>

definition three_float :: "string \<Rightarrow> real option" where
  "three_float s = (if s = ''3'' then Some 3 else None)"

definition gappy_file :: frame where
  "gappy_file =
     [(Str ''Series Name'', [Str ''CO2'', Str ''CO2'', Str ''CO2'']),
      (Str ''Series Code'', [Str ''EN'', Str ''EN'', Str ''EN'']),
      (Str ''Country Name'', [Str ''Chad'', Str ''Kenya'', Str ''Mali'']),
      (Str ''Country Code'', [Str ''TCD'', Str ''KEN'', Str ''MLI'']),
      (Str ''1980'', [Str ''..'', Str ''3'', Str ''..'']),
      (Str ''1985'', [NaN, NaN, NaN]),
      (Str ''1990'', [NaN, NaN, NaN]),
      (Str ''1995'', [NaN, NaN, NaN]),
      (Str ''2000'', [NaN, NaN, NaN]),
      (Str ''2005'', [NaN, NaN, NaN]),
      (Str ''2010'', [NaN, NaN, NaN]),
      (Str ''2015'', [NaN, NaN, NaN]),
      (Str ''2020'', [NaN, NaN, NaN])]"

definition gappy_filled :: frame where
  "gappy_filled =
     [(Str ''Series Name'', [Str ''CO2'', Str ''CO2'', Str ''CO2'']),
      (Str ''Series Code'', [Str ''EN'', Str ''EN'', Str ''EN'']),
      (Str ''Country Name'', [Str ''Chad'', Str ''Kenya'', Str ''Mali'']),
      (Str ''Country Code'', [Str ''TCD'', Str ''KEN'', Str ''MLI'']),
      (Str ''1980'', [Str ''3'', Str ''3'', Str ''3'']),
      (Str ''1985'', [NaN, NaN, NaN]),
      (Str ''1990'', [NaN, NaN, NaN]),
      (Str ''1995'', [NaN, NaN, NaN]),
      (Str ''2000'', [NaN, NaN, NaN]),
      (Str ''2005'', [NaN, NaN, NaN]),
      (Str ''2010'', [NaN, NaN, NaN]),
      (Str ''2015'', [NaN, NaN, NaN]),
      (Str ''2020'', [NaN, NaN, NaN])]"

definition gappy_named :: frame where
  "gappy_named =
     [(Str ''Series Name'', [Str ''CO2'', Str ''CO2'', Str ''CO2'']),
      (Str ''Country Name'', [Str ''Chad'', Str ''Kenya'', Str ''Mali'']),
      (Str ''1980'', [Str ''3'', Str ''3'', Str ''3'']),
      (Str ''1985'', [NaN, NaN, NaN]),
      (Str ''1990'', [NaN, NaN, NaN]),
      (Str ''1995'', [NaN, NaN, NaN]),
      (Str ''2000'', [NaN, NaN, NaN]),
      (Str ''2005'', [NaN, NaN, NaN]),
      (Str ''2010'', [NaN, NaN, NaN]),
      (Str ''2015'', [NaN, NaN, NaN]),
      (Str ''2020'', [NaN, NaN, NaN])]"

definition gappy_cleaned :: frame where
  "gappy_cleaned =
     [(Str ''Series Name'', [Str ''CO2'', Str ''CO2'', Str ''CO2'']),
      (Str ''Country Name'', [Str ''Chad'', Str ''Kenya'', Str ''Mali'']),
      (Str ''1980'', [Num 3, Num 3, Num 3]),
      (Str ''1985'', [NaN, NaN, NaN]),
      (Str ''1990'', [NaN, NaN, NaN]),
      (Str ''1995'', [NaN, NaN, NaN]),
      (Str ''2000'', [NaN, NaN, NaN]),
      (Str ''2005'', [NaN, NaN, NaN]),
      (Str ''2010'', [NaN, NaN, NaN]),
      (Str ''2015'', [NaN, NaN, NaN]),
      (Str ''2020'', [NaN, NaN, NaN])]"

definition gappy_long :: "long_row list" where
  "gappy_long =
     [(Str ''CO2'', Str ''Chad'', Str ''1980'', Num 3),
      (Str ''CO2'', Str ''Kenya'', Str ''1980'', Num 3),
      (Str ''CO2'', Str ''Mali'', Str ''1980'', Num 3),
      (Str ''CO2'', Str ''Chad'', Str ''1985'', NaN),
      (Str ''CO2'', Str ''Kenya'', Str ''1985'', NaN),
      (Str ''CO2'', Str ''Mali'', Str ''1985'', NaN),
      (Str ''CO2'', Str ''Chad'', Str ''1990'', NaN),
      (Str ''CO2'', Str ''Kenya'', Str ''1990'', NaN),
      (Str ''CO2'', Str ''Mali'', Str ''1990'', NaN),
      (Str ''CO2'', Str ''Chad'', Str ''1995'', NaN),
      (Str ''CO2'', Str ''Kenya'', Str ''1995'', NaN),
      (Str ''CO2'', Str ''Mali'', Str ''1995'', NaN),
      (Str ''CO2'', Str ''Chad'', Str ''2000'', NaN),
      (Str ''CO2'', Str ''Kenya'', Str ''2000'', NaN),
      (Str ''CO2'', Str ''Mali'', Str ''2000'', NaN),
      (Str ''CO2'', Str ''Chad'', Str ''2005'', NaN),
      (Str ''CO2'', Str ''Kenya'', Str ''2005'', NaN),
      (Str ''CO2'', Str ''Mali'', Str ''2005'', NaN),
      (Str ''CO2'', Str ''Chad'', Str ''2010'', NaN),
      (Str ''CO2'', Str ''Kenya'', Str ''2010'', NaN),
      (Str ''CO2'', Str ''Mali'', Str ''2010'', NaN),
      (Str ''CO2'', Str ''Chad'', Str ''2015'', NaN),
      (Str ''CO2'', Str ''Kenya'', Str ''2015'', NaN),
      (Str ''CO2'', Str ''Mali'', Str ''2015'', NaN),
      (Str ''CO2'', Str ''Chad'', Str ''2020'', NaN),
      (Str ''CO2'', Str ''Kenya'', Str ''2020'', NaN),
      (Str ''CO2'', Str ''Mali'', Str ''2020'', NaN)]"

definition gappy_pivot :: frame where
  "gappy_pivot =
     [(Str ''Year'', [Str ''1980'', Str ''1980'', Str ''1980'']),
      (Str ''Country Name'', [Str ''Chad'', Str ''Kenya'', Str ''Mali'']),
      (Str ''CO2'', [Num 3, Num 3, Num 3])]"

text \<open>A file with one indicator of one country, whose year columns are empty but for 1980;
  the frames \<^verbatim>\<open>read_data\<close> returns for it; its long form.\<close>

definition sparse_file :: frame where
  "sparse_file =
     [(Str ''Series Name'', [Str ''CO2'']), (Str ''Series Code'', [Str ''EN'']),
      (Str ''Country Name'', [Str ''Kenya'']), (Str ''Country Code'', [Str ''KEN'']),
      (Str ''1980'', [Num 1]), (Str ''1985'', [NaN]), (Str ''1990'', [NaN]),
      (Str ''1995'', [NaN]), (Str ''2000'', [NaN]), (Str ''2005'', [NaN]),
      (Str ''2010'', [NaN]), (Str ''2015'', [NaN]), (Str ''2020'', [NaN])]"

definition sparse_cleaned :: frame where
  "sparse_cleaned =
     [(Str ''Series Name'', [Str ''CO2'']), (Str ''Country Name'', [Str ''Kenya'']),
      (Str ''1980'', [Num 1]), (Str ''1985'', [NaN]), (Str ''1990'', [NaN]),
      (Str ''1995'', [NaN]), (Str ''2000'', [NaN]), (Str ''2005'', [NaN]),
      (Str ''2010'', [NaN]), (Str ''2015'', [NaN]), (Str ''2020'', [NaN])]"

definition sparse_pivot :: frame where
  "sparse_pivot =
     [(Str ''Year'', [Str ''1980'']), (Str ''Country Name'', [Str ''Kenya'']),
      (Str ''CO2'', [Num 1])]"

definition sparse_long :: "long_row list" where
  "sparse_long =
     [(Str ''CO2'', Str ''Kenya'', Str ''1980'', Num 1), (Str ''CO2'', Str ''Kenya'', Str ''1985'', NaN),
      (Str ''CO2'', Str ''Kenya'', Str ''1990'', NaN), (Str ''CO2'', Str ''Kenya'', Str ''1995'', NaN),
      (Str ''CO2'', Str ''Kenya'', Str ''2000'', NaN), (Str ''CO2'', Str ''Kenya'', Str ''2005'', NaN),
      (Str ''CO2'', Str ''Kenya'', Str ''2010'', NaN), (Str ''CO2'', Str ''Kenya'', Str ''2015'', NaN),
      (Str ''CO2'', Str ''Kenya'', Str ''2020'', NaN)]"

text \<open>A file with two rows for the same indicator and country that differ in the value for
  1980; the frames \<^verbatim>\<open>read_data\<close> returns for it; its long form.\<close>

definition dup_file :: frame where
  "dup_file =
     [(Str ''Series Name'', [Str ''CO2'', Str ''CO2'']), (Str ''Series Code'', [Str ''EN'', Str ''EN'']),
      (Str ''Country Name'', [Str ''Kenya'', Str ''Kenya'']),
      (Str ''Country Code'', [Str ''KEN'', Str ''KEN'']),
      (Str ''1980'', [Num 1, Num 2]), (Str ''1985'', [Num 1, Num 1]), (Str ''1990'', [Num 1, Num 1]),
      (Str ''1995'', [Num 1, Num 1]), (Str ''2000'', [Num 1, Num 1]), (Str ''2005'', [Num 1, Num 1]),
      (Str ''2010'', [Num 1, Num 1]), (Str ''2015'', [Num 1, Num 1]), (Str ''2020'', [Num 1, Num 1])]"

definition dup_cleaned :: frame where
  "dup_cleaned =
     [(Str ''Series Name'', [Str ''CO2'', Str ''CO2'']),
      (Str ''Country Name'', [Str ''Kenya'', Str ''Kenya'']),
      (Str ''1980'', [Num 1, Num 2]), (Str ''1985'', [Num 1, Num 1]), (Str ''1990'', [Num 1, Num 1]),
      (Str ''1995'', [Num 1, Num 1]), (Str ''2000'', [Num 1, Num 1]), (Str ''2005'', [Num 1, Num 1]),
      (Str ''2010'', [Num 1, Num 1]), (Str ''2015'', [Num 1, Num 1]), (Str ''2020'', [Num 1, Num 1])]"

definition dup_long :: "long_row list" where
  "dup_long =
     [(Str ''CO2'', Str ''Kenya'', Str ''1980'', Num 1),
      (Str ''CO2'', Str ''Kenya'', Str ''1980'', Num 2),
      (Str ''CO2'', Str ''Kenya'', Str ''1985'', Num 1),
      (Str ''CO2'', Str ''Kenya'', Str ''1985'', Num 1),
      (Str ''CO2'', Str ''Kenya'', Str ''1990'', Num 1),
      (Str ''CO2'', Str ''Kenya'', Str ''1990'', Num 1),
      (Str ''CO2'', Str ''Kenya'', Str ''1995'', Num 1),
      (Str ''CO2'', Str ''Kenya'', Str ''1995'', Num 1),
      (Str ''CO2'', Str ''Kenya'', Str ''2000'', Num 1),
      (Str ''CO2'', Str ''Kenya'', Str ''2000'', Num 1),
      (Str ''CO2'', Str ''Kenya'', Str ''2005'', Num 1),
      (Str ''CO2'', Str ''Kenya'', Str ''2005'', Num 1),
      (Str ''CO2'', Str ''Kenya'', Str ''2010'', Num 1),
      (Str ''CO2'', Str ''Kenya'', Str ''2010'', Num 1),
      (Str ''CO2'', Str ''Kenya'', Str ''2015'', Num 1),
      (Str ''CO2'', Str ''Kenya'', Str ''2015'', Num 1),
      (Str ''CO2'', Str ''Kenya'', Str ''2020'', Num 1),
      (Str ''CO2'', Str ''Kenya'', Str ''2020'', Num 1)]"

definition dup_pivot :: frame where
  "dup_pivot =
     [(Str ''Year'', [Str ''1980'', Str ''1985'', Str ''1990'', Str ''1995'', Str ''2000'', Str ''2005'', Str ''2010'', Str ''2015'', Str ''2020'']),
      (Str ''Country Name'', [Str ''Kenya'', Str ''Kenya'', Str ''Kenya'', Str ''Kenya'', Str ''Kenya'', Str ''Kenya'', Str ''Kenya'', Str ''Kenya'', Str ''Kenya'']),
      (Str ''CO2'', [Num 1, Num 1, Num 1, Num 1, Num 1, Num 1, Num 1, Num 1, Num 1])]"

text \<open>A stand-in for what scipy and statsmodels return: fitted parameters 2 and 1 with
  variance 4 of the first, and the Jacobian of \<^verbatim>\<open>linear_function\<close>.\<close>

definition toy_numerics :: "unit numerics" where
  "toy_numerics =
     \<lparr>curve_fit = (\<lambda>f x y g. Inr ([2, 1], [[4, 0], [0, 0]])),
      ols_fit = (\<lambda>y x. Inr ()),
      ols_predict = (\<lambda>m x. x),
      ols_conf_int = (\<lambda>m x a. Inr (map (\<lambda>v. (v - a, v + a)) x)),
      jacobian = (\<lambda>f x p. [x, 1])\<rparr>"


section \<open>Properties of the loader\<close>

lemma length_ffill_from [simp]: "length (ffill_from p cs) = length cs"
  by (induction cs arbitrary: p) auto

lemma length_ffill_col [simp]: "length (ffill_col cs) = length cs"
  by (simp add: ffill_col_def split: list.splits)

lemma length_bfill_col [simp]: "length (bfill_col cs) = length cs"
  by (induction cs) (auto simp: Let_def)

lemma ffill_from_valid:
  "i < length cs \<Longrightarrow> \<not> isna (cs ! i) \<Longrightarrow> ffill_from p cs ! i = cs ! i"
  by (induction cs arbitrary: p i) (auto simp: nth_Cons split: nat.splits)

lemma ffill_from_leading:
  "i < length cs \<Longrightarrow> \<forall>k\<le>i. isna (cs ! k) \<Longrightarrow> ffill_from p cs ! i = p"
proof (induction cs arbitrary: i)
  case Nil
  then show ?case by simp
next
  case (Cons c cs)
  have c: "isna c" using Cons.prems(2) by (metis le0 nth_Cons_0)
  show ?case
  proof (cases i)
    case 0
    with c show ?thesis by simp
  next
    case (Suc n)
    have "\<forall>k\<le>n. isna (cs ! k)"
    proof (intro allI impI)
      fix k assume "k \<le> n"
      then have "isna ((c # cs) ! Suc k)" using Cons.prems(2) Suc by (metis Suc_le_mono)
      then show "isna (cs ! k)" by simp
    qed
    with Cons.IH[of n] Cons.prems(1) Suc c show ?thesis by simp
  qed
qed

lemma ffill_from_last:
  "j < i \<Longrightarrow> i < length cs \<Longrightarrow> \<not> isna (cs ! j) \<Longrightarrow> \<forall>k. j < k \<and> k \<le> i \<longrightarrow> isna (cs ! k) \<Longrightarrow>
   ffill_from p cs ! i = cs ! j"
proof (induction cs arbitrary: i j p)
  case Nil
  then show ?case by simp
next
  case (Cons c cs)
  obtain n where i: "i = Suc n" using Cons.prems(1) by (cases i) auto
  have n: "n < length cs" using Cons.prems(2) i by simp
  show ?case
  proof (cases j)
    case 0
    then have c: "\<not> isna c" using Cons.prems(3) by simp
    have "\<forall>k\<le>n. isna (cs ! k)"
    proof (intro allI impI)
      fix k assume "k \<le> n"
      then have "j < Suc k \<and> Suc k \<le> i" using 0 i by simp
      then have "isna ((c # cs) ! Suc k)" using Cons.prems(4) by blast
      then show "isna (cs ! k)" by simp
    qed
    then have "ffill_from c cs ! n = c" using ffill_from_leading[OF n] by blast
    with c i 0 show ?thesis by simp
  next
    case (Suc m)
    have "\<forall>k. m < k \<and> k \<le> n \<longrightarrow> isna (cs ! k)"
    proof (intro allI impI)
      fix k assume "m < k \<and> k \<le> n"
      then have "j < Suc k \<and> Suc k \<le> i" using Suc i by simp
      then have "isna ((c # cs) ! Suc k)" using Cons.prems(4) by blast
      then show "isna (cs ! k)" by simp
    qed
    moreover have "m < n" "\<not> isna (cs ! m)" using Cons.prems Suc i by auto
    ultimately have "\<And>q. ffill_from q cs ! n = cs ! m"
      using Cons.IH[of m n] n by blast
    with Suc i show ?thesis by simp
  qed
qed

lemma ffill_col_valid:
  "i < length cs \<Longrightarrow> \<not> isna (cs ! i) \<Longrightarrow> ffill_col cs ! i = cs ! i"
  by (cases cs; cases i) (auto simp: ffill_col_def ffill_from_valid)

lemma ffill_col_leading:
  assumes "i < length cs" and "\<forall>k\<le>i. isna (cs ! k)"
  shows "isna (ffill_col cs ! i)"
proof (cases cs)
  case Nil
  with assms show ?thesis by simp
next
  case (Cons c rest)
  have c: "isna c" using assms(2) Cons by (metis le0 nth_Cons_0)
  show ?thesis
  proof (cases i)
    case 0
    with c Cons show ?thesis by (simp add: ffill_col_def)
  next
    case (Suc n)
    have "\<forall>k\<le>n. isna (rest ! k)"
    proof (intro allI impI)
      fix k assume "k \<le> n"
      then have "isna (cs ! Suc k)" using assms(2) Suc by (metis Suc_le_mono)
      then show "isna (rest ! k)" using Cons by simp
    qed
    moreover have "n < length rest" using assms(1) Cons Suc by simp
    ultimately have "ffill_from c rest ! n = c" using ffill_from_leading by blast
    with c Cons Suc show ?thesis by (simp add: ffill_col_def)
  qed
qed

lemma ffill_col_last:
  assumes "j < i" and "i < length cs" and "\<not> isna (cs ! j)"
    and "\<forall>k. j < k \<and> k \<le> i \<longrightarrow> isna (cs ! k)"
  shows "ffill_col cs ! i = cs ! j"
proof -
  have "ffill_col cs = ffill_from (hd cs) cs"
    using assms(2) by (cases cs) (auto simp: ffill_col_def)
  then show ?thesis using ffill_from_last[OF assms] by simp
qed

lemma bfill_col_valid:
  "i < length cs \<Longrightarrow> \<not> isna (cs ! i) \<Longrightarrow> bfill_col cs ! i = cs ! i"
  by (induction cs arbitrary: i) (auto simp: nth_Cons Let_def split: nat.splits)

lemma bfill_col_next:
  "i < j \<Longrightarrow> j < length cs \<Longrightarrow> \<not> isna (cs ! j) \<Longrightarrow> \<forall>k. i \<le> k \<and> k < j \<longrightarrow> isna (cs ! k) \<Longrightarrow>
   bfill_col cs ! i = cs ! j"
proof (induction cs arbitrary: i j)
  case Nil
  then show ?case by simp
next
  case (Cons c cs)
  obtain m where j: "j = Suc m" using Cons.prems(1) by (cases j) auto
  have m: "m < length cs" "\<not> isna (cs ! m)" using Cons.prems j by auto
  have tail: "isna (cs ! k)" if "i \<le> Suc k" "k < m" for k
  proof -
    from that have "i \<le> Suc k \<and> Suc k < j" using j by simp
    then have "isna ((c # cs) ! Suc k)" using Cons.prems(4) by blast
    then show ?thesis by simp
  qed
  show ?case
  proof (cases i)
    case 0
    then have c: "isna c" using Cons.prems(4) Cons.prems(1) by auto
    obtain n ns where r: "bfill_col cs = n # ns"
      using m(1) length_bfill_col[of cs] by (cases "bfill_col cs") auto
    have "bfill_col cs ! 0 = cs ! m"
    proof (cases m)
      case 0
      then show ?thesis using bfill_col_valid[of 0 cs] m by simp
    next
      case (Suc m')
      have "\<forall>k. 0 \<le> k \<and> k < m \<longrightarrow> isna (cs ! k)" using tail \<open>i = 0\<close> by simp
      then show ?thesis using Cons.IH[of 0 m] m Suc by simp
    qed
    then have "n = cs ! m" using r by simp
    with c r 0 j show ?thesis by (simp add: Let_def)
  next
    case (Suc n)
    have "\<forall>k. n \<le> k \<and> k < m \<longrightarrow> isna (cs ! k)" using tail Suc by simp
    moreover have "n < m" using Cons.prems(1) Suc j by simp
    ultimately have "bfill_col cs ! n = cs ! m" using Cons.IH[of n m] m by simp
    with Suc j show ?thesis by (simp add: Let_def)
  qed
qed

lemma fill_col_unchanged:
  assumes "i < length zs" and "\<not> isna (zs ! i)"
  shows "bfill_col (ffill_col zs) ! i = zs ! i"
  using assms by (simp add: bfill_col_valid ffill_col_valid)

lemma fill_col_forward:
  assumes i: "i < length zs" and na: "isna (zs ! i)" and ex: "\<exists>j<i. \<not> isna (zs ! j)"
  shows "\<exists>j<i. \<not> isna (zs ! j) \<and> (\<forall>k. j < k \<and> k < i \<longrightarrow> isna (zs ! k))
            \<and> bfill_col (ffill_col zs) ! i = zs ! j"
proof -
  define j where "j = (GREATEST j. j < i \<and> \<not> isna (zs ! j))"
  from ex obtain j0 where j0: "j0 < i \<and> \<not> isna (zs ! j0)" by blast
  have bound: "\<forall>y. y < i \<and> \<not> isna (zs ! y) \<longrightarrow> y \<le> i" by simp
  have j: "j < i \<and> \<not> isna (zs ! j)"
    unfolding j_def using GreatestI_nat[of "\<lambda>j. j < i \<and> \<not> isna (zs ! j)" j0 i] j0 bound by blast
  have greatest: "k \<le> j" if "k < i \<and> \<not> isna (zs ! k)" for k
    unfolding j_def using Greatest_le_nat[of "\<lambda>j. j < i \<and> \<not> isna (zs ! j)" k i] that bound by blast
  have between: "\<forall>k. j < k \<and> k < i \<longrightarrow> isna (zs ! k)"
    using greatest by (meson leD)
  then have "\<forall>k. j < k \<and> k \<le> i \<longrightarrow> isna (zs ! k)"
    using na by (metis le_neq_implies_less)
  then have f: "ffill_col zs ! i = zs ! j"
    using ffill_col_last[of j i zs] j i by blast
  then have "\<not> isna (ffill_col zs ! i)" using j by simp
  then have "bfill_col (ffill_col zs) ! i = ffill_col zs ! i"
    using bfill_col_valid[of i "ffill_col zs"] i by simp
  with f j between show ?thesis by auto
qed

lemma fill_col_backward:
  assumes i: "i < length zs" and na: "isna (zs ! i)" and before: "\<forall>j<i. isna (zs ! j)"
    and some: "\<exists>j<length zs. \<not> isna (zs ! j)"
  shows "\<exists>j. i < j \<and> j < length zs \<and> \<not> isna (zs ! j) \<and> (\<forall>k. i < k \<and> k < j \<longrightarrow> isna (zs ! k))
            \<and> bfill_col (ffill_col zs) ! i = zs ! j"
proof -
  from some obtain j0 where j0: "j0 < length zs" "\<not> isna (zs ! j0)" by blast
  define j where "j = (LEAST j. j < length zs \<and> \<not> isna (zs ! j))"
  have j: "j < length zs \<and> \<not> isna (zs ! j)"
    unfolding j_def using LeastI[of "\<lambda>j. j < length zs \<and> \<not> isna (zs ! j)" j0] j0 by blast
  have least: "j \<le> k" if "k < length zs \<and> \<not> isna (zs ! k)" for k
    unfolding j_def using Least_le[of "\<lambda>j. j < length zs \<and> \<not> isna (zs ! j)" k] that by blast
  have ij: "i < j" using j before na by (metis linorder_neqE_nat)
  have below: "isna (zs ! k)" if "k < j" for k
    using least[of k] that j by (meson leD less_trans)
  have "isna (ffill_col zs ! k)" if "k < j" for k
  proof -
    have "k < length zs" using that j by simp
    moreover have "\<forall>m\<le>k. isna (zs ! m)" using below that by simp
    ultimately show ?thesis by (rule ffill_col_leading)
  qed
  then have nas: "\<forall>k. i \<le> k \<and> k < j \<longrightarrow> isna (ffill_col zs ! k)" by simp
  have fj: "ffill_col zs ! j = zs ! j"
    using ffill_col_valid[of j zs] j by simp
  have "bfill_col (ffill_col zs) ! i = ffill_col zs ! j"
    using bfill_col_next[of i j "ffill_col zs"] ij j fj nas by simp
  with fj ij j below show ?thesis by auto
qed

lemma replace_cell_valid: "\<not> isna (replace_cell c) \<Longrightarrow> replace_cell c = c"
  by (auto simp: replace_cell_def split: if_splits)

lemma filled_column:
  "(l, xs) \<in> set raw \<Longrightarrow>
   (l, bfill_col (ffill_col (map replace_cell xs))) \<in> set (fill_missing (replace_dots raw))"
  by (force simp: fill_missing_def fillna_bfill_def fillna_ffill_def replace_dots_def)

lemma nrows_filled: "nrows (fill_missing (replace_dots raw)) = nrows raw"
  by (cases raw) (auto simp: nrows_def fill_missing_def fillna_bfill_def fillna_ffill_def replace_dots_def)

lemma trimmed_kept_rows:
  "drop_tail_rows 1519 (drop_duplicates (fill_missing (replace_dots raw)))
   = select_rows (kept_rows raw) (fill_missing (replace_dots raw))"
  by (simp add: drop_tail_rows_def drop_duplicates_def select_rows_def kept_rows_def take_map
        case_prod_unfold comp_def)

lemma kept_rows_bound: "p < length (kept_rows raw) \<Longrightarrow> kept_rows raw ! p < nrows raw"
proof -
  assume "p < length (kept_rows raw)"
  then have "kept_rows raw ! p \<in> set (kept_rows raw)" by simp
  then have "kept_rows raw ! p \<in> set [0..<nrows (fill_missing (replace_dots raw))]"
    unfolding kept_rows_def by (meson in_set_takeD filter_is_subset subsetD)
  then show ?thesis by (simp add: nrows_filled)
qed

lemma collect_Inr_nth:
  "collect rs = Inr xs \<Longrightarrow> length xs = length rs \<and> (\<forall>n<length rs. rs ! n = Inr (xs ! n))"
proof (induction rs arbitrary: xs rule: collect.induct)
  case 1
  then show ?case by simp
next
  case (2 e rs)
  then show ?case by simp
next
  case (3 x rs)
  then obtain ys where ys: "collect rs = Inr ys" "xs = x # ys"
    by (auto split: sum.splits)
  with "3.IH"[of ys] show ?case by (auto simp: nth_Cons split: nat.splits)
qed

lemma convert_columns_column:
  assumes c: "convert_columns float_of ls df = Inr df'" and m: "(l, cs) \<in> set df"
  shows "\<exists>cs'. (l, cs') \<in> set df' \<and> length cs' = length cs
            \<and> (\<forall>p<length cs. if l \<in> set ls then astype_float float_of (cs ! p) = Inr (cs' ! p)
                               else cs' ! p = cs ! p)"
proof -
  let ?f = "\<lambda>(l, cs). if l \<in> set ls
             then (case collect (map (astype_float float_of) cs) of
                     Inl e \<Rightarrow> Inl e | Inr cs' \<Rightarrow> Inr (l, cs'))
             else Inr (l, cs)"
  from c have co: "collect (map ?f df) = Inr df'"
    by (auto simp: convert_columns_def split: if_splits)
  from m obtain n where n: "n < length df" "df ! n = (l, cs)" by (auto simp: in_set_conv_nth)
  from collect_Inr_nth[OF co] n have len: "length df' = length df" and fn: "?f (l, cs) = Inr (df' ! n)"
    by auto
  show ?thesis
  proof (cases "l \<in> set ls")
    case False
    with fn have "df' ! n = (l, cs)" by simp
    then have "(l, cs) \<in> set df'" using n(1) len by (metis nth_mem)
    with False show ?thesis by auto
  next
    case True
    with fn obtain cs' where cs': "collect (map (astype_float float_of) cs) = Inr cs'"
      and d: "df' ! n = (l, cs')" by (auto split: sum.splits)
    from d have "(l, cs') \<in> set df'" using n(1) len by (metis nth_mem)
    moreover from collect_Inr_nth[OF cs'] have "length cs' = length cs"
      and "\<forall>p<length cs. astype_float float_of (cs ! p) = Inr (cs' ! p)" by auto
    ultimately show ?thesis using True by auto
  qed
qed

lemma labels_replace_dots [simp]: "labels (replace_dots df) = labels df"
  by (induction df) (auto simp: labels_def replace_dots_def)

lemma labels_fill_missing [simp]: "labels (fill_missing df) = labels df"
  by (induction df) (auto simp: labels_def fill_missing_def fillna_bfill_def fillna_ffill_def)

lemma labels_select_rows [simp]: "labels (select_rows is df) = labels df"
  by (induction df) (auto simp: labels_def select_rows_def)

lemma labels_drop_duplicates [simp]: "labels (drop_duplicates df) = labels df"
  by (simp add: drop_duplicates_def)

lemma labels_drop_tail_rows [simp]: "labels (drop_tail_rows n df) = labels df"
  by (induction df) (auto simp: labels_def drop_tail_rows_def)

lemma labels_drop_columns:
  "drop_columns ls df = Inr df' \<Longrightarrow> labels df' = filter (\<lambda>l. l \<notin> set ls) (labels df)"
  by (auto simp: drop_columns_def labels_def filter_map comp_def case_prod_unfold split: if_splits)

lemma collect_Inr_map_fst:
  "collect (map f xs) = Inr ys \<Longrightarrow> (\<And>x y. x \<in> set xs \<Longrightarrow> f x = Inr y \<Longrightarrow> g y = h x)
   \<Longrightarrow> map g ys = map h xs"
proof (induction xs arbitrary: ys)
  case Nil
  then show ?case by simp
next
  case (Cons x xs)
  then show ?case
    by (cases "f x") (auto split: sum.splits)
qed

lemma labels_convert_columns:
  assumes "convert_columns float_of ls df = Inr df'"
  shows "labels df' = labels df"
proof -
  let ?f = "\<lambda>(l, cs). if l \<in> set ls
             then (case collect (map (astype_float float_of) cs) of
                     Inl e \<Rightarrow> Inl e | Inr cs' \<Rightarrow> Inr (l, cs'))
             else Inr (l, cs)"
  from assms have c: "collect (map ?f df) = Inr df'"
    by (auto simp: convert_columns_def split: if_splits)
  have "map fst df' = map fst df"
    by (rule collect_Inr_map_fst[OF c]) (auto split: if_splits sum.splits)
  then show ?thesis by (simp add: labels_def)
qed

lemma clean_Inr:
  assumes "clean float_of (Csv raw) = Inr df1"
  shows "convert_columns float_of year_columns
           (filter (\<lambda>(l, cs). l \<notin> set code_columns)
                   (select_rows (kept_rows raw) (fill_missing (replace_dots raw)))) = Inr df1"
  using assms
  by (auto simp: clean_def Let_def drop_columns_def trimmed_kept_rows split: sum.splits if_splits)

lemma clean_labels:
  assumes "clean float_of (Csv df) = Inr df'"
  shows "labels df' = filter (\<lambda>l. l \<notin> set code_columns) (labels df)"
    and "\<forall>l \<in> set code_columns. l \<in> set (labels df)"
    and "\<forall>l \<in> set year_columns. l \<in> set (labels df)"
proof -
  let ?t = "drop_tail_rows 1519 (drop_duplicates (fill_missing (replace_dots df)))"
  from assms obtain named where n: "drop_columns code_columns ?t = Inr named"
    and c: "convert_columns float_of year_columns named = Inr df'"
    by (auto simp: clean_def Let_def split: sum.splits)
  from labels_drop_columns[OF n] have ln: "labels named = filter (\<lambda>l. l \<notin> set code_columns) (labels df)"
    by simp
  with labels_convert_columns[OF c] show "labels df' = filter (\<lambda>l. l \<notin> set code_columns) (labels df)"
    by simp
  from n show "\<forall>l \<in> set code_columns. l \<in> set (labels df)"
    by (auto simp: drop_columns_def split: if_splits)
  from c have "\<forall>l \<in> set year_columns. l \<in> set (labels named)"
    by (auto simp: convert_columns_def split: if_splits)
  with ln show "\<forall>l \<in> set year_columns. l \<in> set (labels df)" by auto
qed

lemma read_data_clean:
  "read_data float_of f = Inr (df1, df2) \<Longrightarrow> clean float_of f = Inr df1"
  by (auto simp: read_data_def split: sum.splits)

text \<open>
  Claim C3. Let \<^verbatim>\<open>read_data\<close> return for a file whose table is well formed. Take a column
  of the file other than the two code columns, which are dropped, and a row that
  \<^verbatim>\<open>read_data\<close> keeps (lines 41 to 44), at position \<open>i\<close> of the file. The first frame
  returned has the column, with one value for every row kept, and the value for the row is
  taken (through \<^verbatim>\<open>float\<close> in a year column, as it is elsewhere) from the file as
  follows, a cell being missing when it is empty or holds \<^verbatim>\<open>..\<close>: from row \<open>i\<close> itself when
  that cell is not missing; otherwise from the last row above \<open>i\<close> whose cell is not missing
  (forward fill); and when every cell above is missing too, from the first row below \<open>i\<close>
  whose cell is not missing (backward fill), if the column has a value at all.
\<close>

theorem fill_policy:
  assumes rd: "read_data float_of (Csv raw) = Inr (df1, df2)" and wf: "wf_frame raw"
    and col: "(l, xs) \<in> set raw" and nc: "l \<notin> set code_columns"
    and p: "p < length (kept_rows raw)"
  shows "\<exists>ys src. map_of df1 l = Some ys \<and> length ys = length (kept_rows raw)
          \<and> (if l \<in> set year_columns then astype_float float_of src = Inr (ys ! p)
             else ys ! p = src)
          \<and> (let i = kept_rows raw ! p in
               (\<not> isna (replace_cell (xs ! i)) \<longrightarrow> src = xs ! i)
             \<and> (isna (replace_cell (xs ! i)) \<and> (\<exists>j<i. \<not> isna (replace_cell (xs ! j))) \<longrightarrow>
                  (\<exists>j<i. \<not> isna (replace_cell (xs ! j))
                        \<and> (\<forall>k. j < k \<and> k < i \<longrightarrow> isna (replace_cell (xs ! k))) \<and> src = xs ! j))
             \<and> (isna (replace_cell (xs ! i)) \<and> (\<forall>j<i. isna (replace_cell (xs ! j)))
                  \<and> (\<exists>j<length xs. \<not> isna (replace_cell (xs ! j))) \<longrightarrow>
                  (\<exists>j. i < j \<and> j < length xs \<and> \<not> isna (replace_cell (xs ! j))
                        \<and> (\<forall>k. i < k \<and> k < j \<longrightarrow> isna (replace_cell (xs ! k))) \<and> src = xs ! j)))"
proof -
  let ?K = "kept_rows raw"
  let ?zs = "map replace_cell xs"
  let ?fx = "bfill_col (ffill_col ?zs)"
  let ?i = "?K ! p"
  have cl: "clean float_of (Csv raw) = Inr df1" by (rule read_data_clean[OF rd])
  have len: "length xs = nrows raw"
    using wf col by (auto simp: wf_frame_def list_all_iff)
  have i: "?i < length xs" using kept_rows_bound[OF p] len by simp
  have "(l, ?fx) \<in> set (fill_missing (replace_dots raw))" by (rule filled_column[OF col])
  then have "(l, map (\<lambda>i. ?fx ! i) ?K) \<in> set (select_rows ?K (fill_missing (replace_dots raw)))"
    by (force simp: select_rows_def)
  with nc have named: "(l, map (\<lambda>i. ?fx ! i) ?K)
      \<in> set (filter (\<lambda>(l, cs). l \<notin> set code_columns)
                     (select_rows ?K (fill_missing (replace_dots raw))))" by simp
  from convert_columns_column[OF clean_Inr[OF cl] named] obtain ys where
    ys: "(l, ys) \<in> set df1" "length ys = length ?K"
    and conv0: "\<forall>q<length ?K. if l \<in> set year_columns
                 then astype_float float_of (map (\<lambda>i. ?fx ! i) ?K ! q) = Inr (ys ! q)
                 else ys ! q = map (\<lambda>i. ?fx ! i) ?K ! q"
    by auto
  have conv: "if l \<in> set year_columns
                 then astype_float float_of (?fx ! (?K ! q)) = Inr (ys ! q)
                 else ys ! q = ?fx ! (?K ! q)" if "q < length ?K" for q
    using conv0 that by (auto split: if_splits)
  have "distinct (labels df1)"
    using clean_labels(1)[OF cl] wf by (simp add: wf_frame_def)
  then have m: "map_of df1 l = Some ys"
    using ys(1) by (simp add: labels_def)
  define src where "src = ?fx ! ?i"
  have c1: "if l \<in> set year_columns then astype_float float_of src = Inr (ys ! p) else ys ! p = src"
    using conv p by (simp add: src_def)
  have iz: "?i < length ?zs" using i by simp
  have z: "?zs ! k = replace_cell (xs ! k)" if "k < length xs" for k using that by simp
  have a: "\<not> isna (replace_cell (xs ! ?i)) \<longrightarrow> src = xs ! ?i"
  proof
    assume v: "\<not> isna (replace_cell (xs ! ?i))"
    then have "\<not> isna (?zs ! ?i)" using z[OF i] by simp
    from fill_col_unchanged[OF iz this] have "src = replace_cell (xs ! ?i)"
      using z[OF i] by (simp add: src_def)
    with replace_cell_valid[OF v] show "src = xs ! ?i" by simp
  qed
  have b: "isna (replace_cell (xs ! ?i)) \<and> (\<exists>j<?i. \<not> isna (replace_cell (xs ! j))) \<longrightarrow>
             (\<exists>j<?i. \<not> isna (replace_cell (xs ! j))
                   \<and> (\<forall>k. j < k \<and> k < ?i \<longrightarrow> isna (replace_cell (xs ! k))) \<and> src = xs ! j)"
  proof
    assume h: "isna (replace_cell (xs ! ?i)) \<and> (\<exists>j<?i. \<not> isna (replace_cell (xs ! j)))"
    then have na: "isna (?zs ! ?i)" using z[OF i] by simp
    from h obtain j0 where "j0 < ?i" "\<not> isna (replace_cell (xs ! j0))" by blast
    then have "\<exists>j<?i. \<not> isna (?zs ! j)" using i z[of j0] by auto
    from fill_col_forward[OF iz na this] obtain j where
      j: "j < ?i" "\<not> isna (?zs ! j)" "\<forall>k. j < k \<and> k < ?i \<longrightarrow> isna (?zs ! k)" "?fx ! ?i = ?zs ! j"
      by blast
    have jl: "j < length xs" using j(1) i by simp
    have v: "\<not> isna (replace_cell (xs ! j))" using j(2) z[OF jl] by simp
    have "\<forall>k. j < k \<and> k < ?i \<longrightarrow> isna (replace_cell (xs ! k))"
    proof (intro allI impI)
      fix k assume k: "j < k \<and> k < ?i"
      then have kl: "k < length xs" using i by simp
      from j(3) k have "isna (?zs ! k)" by blast
      then show "isna (replace_cell (xs ! k))" using z[OF kl] by simp
    qed
    moreover have "src = xs ! j"
      using j(4) z[OF jl] replace_cell_valid[OF v] by (simp add: src_def)
    ultimately show "\<exists>j<?i. \<not> isna (replace_cell (xs ! j))
                   \<and> (\<forall>k. j < k \<and> k < ?i \<longrightarrow> isna (replace_cell (xs ! k))) \<and> src = xs ! j"
      using j(1) v by blast
  qed
  have c: "isna (replace_cell (xs ! ?i)) \<and> (\<forall>j<?i. isna (replace_cell (xs ! j)))
             \<and> (\<exists>j<length xs. \<not> isna (replace_cell (xs ! j))) \<longrightarrow>
             (\<exists>j. ?i < j \<and> j < length xs \<and> \<not> isna (replace_cell (xs ! j))
                   \<and> (\<forall>k. ?i < k \<and> k < j \<longrightarrow> isna (replace_cell (xs ! k))) \<and> src = xs ! j)"
  proof
    assume h: "isna (replace_cell (xs ! ?i)) \<and> (\<forall>j<?i. isna (replace_cell (xs ! j)))
             \<and> (\<exists>j<length xs. \<not> isna (replace_cell (xs ! j)))"
    then have na: "isna (?zs ! ?i)" using z[OF i] by simp
    have before: "\<forall>j<?i. isna (?zs ! j)"
    proof (intro allI impI)
      fix j assume ji: "j < ?i"
      then have jl: "j < length xs" using i by simp
      from h ji have "isna (replace_cell (xs ! j))" by blast
      then show "isna (?zs ! j)" using z[OF jl] by simp
    qed
    from h obtain j0 where "j0 < length xs" "\<not> isna (replace_cell (xs ! j0))" by blast
    then have "\<exists>j<length ?zs. \<not> isna (?zs ! j)" using z[of j0] by auto
    from fill_col_backward[OF iz na before this] obtain j where
      j: "?i < j" "j < length ?zs" "\<not> isna (?zs ! j)" "\<forall>k. ?i < k \<and> k < j \<longrightarrow> isna (?zs ! k)"
         "?fx ! ?i = ?zs ! j"
      by blast
    have jl: "j < length xs" using j(2) by simp
    have v: "\<not> isna (replace_cell (xs ! j))" using j(3) z[OF jl] by simp
    have "\<forall>k. ?i < k \<and> k < j \<longrightarrow> isna (replace_cell (xs ! k))"
    proof (intro allI impI)
      fix k assume k: "?i < k \<and> k < j"
      then have kl: "k < length xs" using jl by simp
      from j(4) k have "isna (?zs ! k)" by blast
      then show "isna (replace_cell (xs ! k))" using z[OF kl] by simp
    qed
    moreover have "src = xs ! j"
      using j(5) z[OF jl] replace_cell_valid[OF v] by (simp add: src_def)
    ultimately show "\<exists>j. ?i < j \<and> j < length xs \<and> \<not> isna (replace_cell (xs ! j))
                   \<and> (\<forall>k. ?i < k \<and> k < j \<longrightarrow> isna (replace_cell (xs ! k))) \<and> src = xs ! j"
      using j(1) jl v by blast
  qed
  from m ys(2) c1 a b c show ?thesis unfolding Let_def by blast
qed

subsection \<open>Errors of the loader\<close>














section \<open>Properties of the reshaper\<close>

lemma set_pivot_index:
  "set (pivot_index long) = (\<lambda>(s, c, y, v). (y, c)) ` set (grouped long)"
  by (simp add: pivot_index_def)

lemma set_pivot_columns:
  "set (pivot_columns long) = (\<lambda>(s, c, y, v). s) ` set (grouped long)"
  by (simp add: pivot_columns_def)

lemma length_pivot_index:
  "length (pivot_index long) = card ((\<lambda>(s, c, y, v). (y, c)) ` set (grouped long))"
  by (simp add: pivot_index_def length_remdups_card_conv)

lemma length_pivot_columns:
  "length (pivot_columns long) = card ((\<lambda>(s, c, y, v). s) ` set (grouped long))"
  by (simp add: pivot_columns_def length_remdups_card_conv)

lemma pivot_table_shape:
  assumes "pivot_table yn cn long = Inr df"
  shows "nrows df = length (pivot_index long)" and "length df = length (pivot_columns long) + 2"
  using assms by (auto simp: pivot_table_def Let_def nrows_def split: if_splits)

lemma reshape_long:
  assumes "reshape df1 = Inr df2"
  shows "pivot_table (Str ''Year'') (Str ''Country Name'')
           (melt_rows (Str ''Series Name'') (Str ''Country Name'') df1) = Inr df2"
  using assms by (auto simp: reshape_def melt_def split: sum.splits if_splits)

lemma read_data_reshape:
  "read_data float_of f = Inr (df1, df2) \<Longrightarrow> reshape df1 = Inr df2"
  by (auto simp: read_data_def split: sum.splits)

text \<open>
  Claim C2, as amended. When \<^verbatim>\<open>read_data\<close> returns, the pivoted table has one row for each
  distinct (year, country) pair that has, for some indicator, a value that is not
  missing (names not missing either), and its number of columns is the number of distinct
  indicator names that have such a value, plus the two key columns.
\<close>

theorem reshaper_size:
  assumes "read_data float_of f = Inr (df1, df2)"
  shows "nrows df2 =
           card ((\<lambda>(s, c, y, v). (y, c)) `
                 set (grouped (melt_rows (Str ''Series Name'') (Str ''Country Name'') df1)))
       \<and> length df2 =
           card ((\<lambda>(s, c, y, v). s) `
                 set (grouped (melt_rows (Str ''Series Name'') (Str ''Country Name'') df1))) + 2"
  using pivot_table_shape[OF reshape_long[OF read_data_reshape[OF assms]]]
  by (simp add: length_pivot_index length_pivot_columns)

lemma first_value_Cons:
  "first_value (r # long) y c s =
     (case r of (s', c', y', v) \<Rightarrow>
        if y' = y \<and> c' = c \<and> s' = s \<and> \<not> isna v then Some v else first_value long y c s)"
  by (auto simp: first_value_def split: prod.splits)

lemma first_value_iff:
  "first_value long y c s = Some v \<longleftrightarrow>
     \<not> isna v \<and> (\<exists>pre post. long = pre @ (s, c, y, v) # post
                    \<and> (\<forall>(s', c', y', v') \<in> set pre. s' = s \<and> c' = c \<and> y' = y \<longrightarrow> isna v'))"
proof (induction long)
  case Nil
  then show ?case by (simp add: first_value_def)
next
  case (Cons r long)
  obtain s0 c0 y0 v0 where r: "r = (s0, c0, y0, v0)" by (cases r) auto
  show ?case
  proof (cases "y0 = y \<and> c0 = c \<and> s0 = s \<and> \<not> isna v0")
    case True
    have "first_value (r # long) y c s = Some v0"
      using True r by (simp add: first_value_Cons)
    moreover have "(\<not> isna v \<and> (\<exists>pre post. r # long = pre @ (s, c, y, v) # post
                    \<and> (\<forall>(s', c', y', v') \<in> set pre. s' = s \<and> c' = c \<and> y' = y \<longrightarrow> isna v')))
                  \<longleftrightarrow> v = v0"
    proof
      assume "\<not> isna v \<and> (\<exists>pre post. r # long = pre @ (s, c, y, v) # post
                    \<and> (\<forall>(s', c', y', v') \<in> set pre. s' = s \<and> c' = c \<and> y' = y \<longrightarrow> isna v'))"
      then obtain pre post where p: "r # long = pre @ (s, c, y, v) # post"
        and q: "\<forall>(s', c', y', v') \<in> set pre. s' = s \<and> c' = c \<and> y' = y \<longrightarrow> isna v'" by blast
      show "v = v0"
      proof (cases pre)
        case Nil
        with p r show ?thesis by simp
      next
        case (Cons a pre')
        with p r have "(s0, c0, y0, v0) \<in> set pre" by simp
        with q True show ?thesis by auto
      qed
    next
      assume "v = v0"
      then have "r # long = [] @ (s, c, y, v) # long" using True r by simp
      moreover have "\<not> isna v" using True \<open>v = v0\<close> by simp
      ultimately show "\<not> isna v \<and> (\<exists>pre post. r # long = pre @ (s, c, y, v) # post
                    \<and> (\<forall>(s', c', y', v') \<in> set pre. s' = s \<and> c' = c \<and> y' = y \<longrightarrow> isna v'))"
        by (metis empty_iff list.set(1))
    qed
    ultimately show ?thesis by auto
  next
    case False
    have fv: "first_value (r # long) y c s = first_value long y c s"
      using False r by (auto simp: first_value_Cons)
    have "(\<exists>pre post. r # long = pre @ (s, c, y, v) # post
              \<and> (\<forall>(s', c', y', v') \<in> set pre. s' = s \<and> c' = c \<and> y' = y \<longrightarrow> isna v'))
          \<longleftrightarrow> (\<exists>pre post. long = pre @ (s, c, y, v) # post
              \<and> (\<forall>(s', c', y', v') \<in> set pre. s' = s \<and> c' = c \<and> y' = y \<longrightarrow> isna v'))"
      if v: "\<not> isna v"
    proof
      assume "\<exists>pre post. r # long = pre @ (s, c, y, v) # post
              \<and> (\<forall>(s', c', y', v') \<in> set pre. s' = s \<and> c' = c \<and> y' = y \<longrightarrow> isna v')"
      then obtain pre post where p: "r # long = pre @ (s, c, y, v) # post"
        and q: "\<forall>(s', c', y', v') \<in> set pre. s' = s \<and> c' = c \<and> y' = y \<longrightarrow> isna v'" by blast
      show "\<exists>pre post. long = pre @ (s, c, y, v) # post
              \<and> (\<forall>(s', c', y', v') \<in> set pre. s' = s \<and> c' = c \<and> y' = y \<longrightarrow> isna v')"
      proof (cases pre)
        case Nil
        with p r have "(s0, c0, y0, v0) = (s, c, y, v)" by simp
        with False v show ?thesis by simp
      next
        case (Cons a pre')
        with p have "long = pre' @ (s, c, y, v) # post" by simp
        moreover from q Cons have
          "\<forall>(s', c', y', v') \<in> set pre'. s' = s \<and> c' = c \<and> y' = y \<longrightarrow> isna v'" by simp
        ultimately show ?thesis by blast
      qed
    next
      assume "\<exists>pre post. long = pre @ (s, c, y, v) # post
              \<and> (\<forall>(s', c', y', v') \<in> set pre. s' = s \<and> c' = c \<and> y' = y \<longrightarrow> isna v')"
      then obtain pre post where p: "long = pre @ (s, c, y, v) # post"
        and q: "\<forall>(s', c', y', v') \<in> set pre. s' = s \<and> c' = c \<and> y' = y \<longrightarrow> isna v'" by blast
      have "r # long = (r # pre) @ (s, c, y, v) # post" using p by simp
      moreover have "\<forall>(s', c', y', v') \<in> set (r # pre). s' = s \<and> c' = c \<and> y' = y \<longrightarrow> isna v'"
        using q False r by auto
      ultimately show "\<exists>pre post. r # long = pre @ (s, c, y, v) # post
              \<and> (\<forall>(s', c', y', v') \<in> set pre. s' = s \<and> c' = c \<and> y' = y \<longrightarrow> isna v')"
        by blast
    qed
    with fv Cons.IH show ?thesis by auto
  qed
qed

lemma first_row_distinct:
  assumes d: "distinct (map (\<lambda>(s, c, y, v). (y, c, s)) long)"
  shows "(\<exists>pre post. long = pre @ (s, c, y, v) # post
            \<and> (\<forall>(s', c', y', v') \<in> set pre. s' = s \<and> c' = c \<and> y' = y \<longrightarrow> isna v'))
         \<longleftrightarrow> (s, c, y, v) \<in> set long"
proof
  assume "\<exists>pre post. long = pre @ (s, c, y, v) # post
            \<and> (\<forall>(s', c', y', v') \<in> set pre. s' = s \<and> c' = c \<and> y' = y \<longrightarrow> isna v')"
  then show "(s, c, y, v) \<in> set long" by auto
next
  assume "(s, c, y, v) \<in> set long"
  then obtain pre post where p: "long = pre @ (s, c, y, v) # post"
    by (meson split_list)
  have "\<not> (s' = s \<and> c' = c \<and> y' = y)" if "(s', c', y', v') \<in> set pre" for s' c' y' v'
  proof
    assume e: "s' = s \<and> c' = c \<and> y' = y"
    from that have "(y, c, s) \<in> set (map (\<lambda>(s, c, y, v). (y, c, s)) pre)"
      using e by force
    then show False using d p by auto
  qed
  then have "\<forall>(s', c', y', v') \<in> set pre. s' = s \<and> c' = c \<and> y' = y \<longrightarrow> isna v'" by auto
  with p show "\<exists>pre post. long = pre @ (s, c, y, v) # post
            \<and> (\<forall>(s', c', y', v') \<in> set pre. s' = s \<and> c' = c \<and> y' = y \<longrightarrow> isna v')" by blast
qed

lemma pivot_cell_valid_iff:
  "\<not> isna v \<Longrightarrow> pivot_cell long y c s = v \<longleftrightarrow> first_value long y c s = Some v"
  by (cases "first_value long y c s") (auto simp: pivot_cell_def)

lemma zip_map_self: "zip xs (map g xs) = map (\<lambda>x. (x, g x)) xs"
  by (induction xs) auto

lemma melt_rows_pivot:
  assumes p: "pivot_table yn cn long = Inr df" and ne: "yn \<noteq> cn"
  shows "set (melt_rows yn cn df) =
           {(y, c, s, pivot_cell long y c s) | y c s.
              (y, c) \<in> set (pivot_index long) \<and> s \<in> set (pivot_columns long)}"
proof -
  let ?idx = "pivot_index long" and ?cols = "pivot_columns long"
  let ?body = "map (\<lambda>s. (s, map (\<lambda>(y, c). pivot_cell long y c s) ?idx)) ?cols"
  from p have notin: "yn \<notin> set ?cols" "cn \<notin> set ?cols"
    and df: "df = (yn, map fst ?idx) # (cn, map snd ?idx) # ?body"
    by (auto simp: pivot_table_def Let_def split: if_splits)
  have f: "filter (\<lambda>(l, vs). l \<noteq> yn \<and> l \<noteq> cn) ?body = ?body"
    using notin by (auto simp: filter_id_conv)
  have z: "zip (map fst ?idx) (map snd ?idx) = ?idx"
    by (simp add: zip_map_fst_snd)
  have "melt_rows yn cn df =
          concat (map (\<lambda>(l, vs). map (\<lambda>((x, y), v). (x, y, l, v)) (zip ?idx vs)) ?body)"
    using ne f by (simp add: melt_rows_def df z)
  also have "set \<dots> = {(y, c, s, pivot_cell long y c s) | y c s.
              (y, c) \<in> set ?idx \<and> s \<in> set ?cols}"
    by (force simp: zip_map_self image_iff)
  finally show ?thesis .
qed

text \<open>
  Claim C1, as amended. The cells of the pivoted table that are not missing, read as
  (year, country, indicator, value), are exactly these: for every (year, country,
  indicator) with no missing name, the first value that is not missing among the long
  rows of the cleaned table with that triple. So when no two long rows have the same
  triple, they are exactly the long rows whose names and value are not missing.
\<close>

theorem reshape_round_trip:
  assumes r: "reshape df1 = Inr df2"
  shows "{(y, c, s, v). (y, c, s, v) \<in> set (melt_rows (Str ''Year'') (Str ''Country Name'') df2)
                        \<and> \<not> isna v}
       = {(y, c, s, v). \<not> isna y \<and> \<not> isna c \<and> \<not> isna s \<and> \<not> isna v
            \<and> (\<exists>pre post.
                  melt_rows (Str ''Series Name'') (Str ''Country Name'') df1 = pre @ (s, c, y, v) # post
                  \<and> (\<forall>(s', c', y', v') \<in> set pre. s' = s \<and> c' = c \<and> y' = y \<longrightarrow> isna v'))}
     \<and> (distinct (map (\<lambda>(s, c, y, v). (y, c, s))
                      (melt_rows (Str ''Series Name'') (Str ''Country Name'') df1)) \<longrightarrow>
         {(y, c, s, v). (y, c, s, v) \<in> set (melt_rows (Str ''Year'') (Str ''Country Name'') df2)
                        \<and> \<not> isna v}
       = {(y, c, s, v). (s, c, y, v) \<in> set (melt_rows (Str ''Series Name'') (Str ''Country Name'') df1)
                        \<and> \<not> isna y \<and> \<not> isna c \<and> \<not> isna s \<and> \<not> isna v})"
proof -
  let ?long = "melt_rows (Str ''Series Name'') (Str ''Country Name'') df1"
  let ?first = "\<lambda>y c s v. \<exists>pre post. ?long = pre @ (s, c, y, v) # post
                  \<and> (\<forall>(s', c', y', v') \<in> set pre. s' = s \<and> c' = c \<and> y' = y \<longrightarrow> isna v')"
  have m: "set (melt_rows (Str ''Year'') (Str ''Country Name'') df2) =
           {(y, c, s, pivot_cell ?long y c s) | y c s.
              (y, c) \<in> set (pivot_index ?long) \<and> s \<in> set (pivot_columns ?long)}"
    by (rule melt_rows_pivot[OF reshape_long[OF r]]) simp
  have key: "((y, c, s, v) \<in> set (melt_rows (Str ''Year'') (Str ''Country Name'') df2) \<and> \<not> isna v)
           \<longleftrightarrow> (\<not> isna y \<and> \<not> isna c \<and> \<not> isna s \<and> \<not> isna v \<and> ?first y c s v)"
    for y c s v
  proof (intro iffI)
    assume "(y, c, s, v) \<in> set (melt_rows (Str ''Year'') (Str ''Country Name'') df2) \<and> \<not> isna v"
    then have in2: "(y, c, s, v) \<in> set (melt_rows (Str ''Year'') (Str ''Country Name'') df2)"
      and v: "\<not> isna v" by simp_all
    from in2 m have idx: "(y, c) \<in> set (pivot_index ?long)" and col: "s \<in> set (pivot_columns ?long)"
      and cell: "pivot_cell ?long y c s = v" by auto
    from cell v have "first_value ?long y c s = Some v" by (simp add: pivot_cell_valid_iff)
    then have "?first y c s v" by (simp add: first_value_iff)
    moreover from idx have "\<not> isna y \<and> \<not> isna c"
      by (auto simp: set_pivot_index grouped_def)
    moreover from col have "\<not> isna s"
      by (auto simp: set_pivot_columns grouped_def)
    ultimately show "\<not> isna y \<and> \<not> isna c \<and> \<not> isna s \<and> \<not> isna v \<and> ?first y c s v"
      using v by simp
  next
    assume a: "\<not> isna y \<and> \<not> isna c \<and> \<not> isna s \<and> \<not> isna v \<and> ?first y c s v"
    then have "(s, c, y, v) \<in> set ?long" by auto
    with a have gr: "(s, c, y, v) \<in> set (grouped ?long)" by (simp add: grouped_def)
    then have "(y, c) \<in> set (pivot_index ?long)" "s \<in> set (pivot_columns ?long)"
      by (force simp: set_pivot_index set_pivot_columns)+
    moreover have "first_value ?long y c s = Some v" using a by (simp add: first_value_iff)
    then have "pivot_cell ?long y c s = v" by (simp add: pivot_cell_def)
    ultimately show "(y, c, s, v) \<in> set (melt_rows (Str ''Year'') (Str ''Country Name'') df2) \<and> \<not> isna v"
      using m a by auto
  qed
  have general: "{(y, c, s, v). (y, c, s, v) \<in> set (melt_rows (Str ''Year'') (Str ''Country Name'') df2)
                        \<and> \<not> isna v}
       = {(y, c, s, v). \<not> isna y \<and> \<not> isna c \<and> \<not> isna s \<and> \<not> isna v \<and> ?first y c s v}"
    using key by blast
  have "{(y, c, s, v). \<not> isna y \<and> \<not> isna c \<and> \<not> isna s \<and> \<not> isna v \<and> ?first y c s v}
      = {(y, c, s, v). (s, c, y, v) \<in> set ?long \<and> \<not> isna y \<and> \<not> isna c \<and> \<not> isna s \<and> \<not> isna v}"
    if d: "distinct (map (\<lambda>(s, c, y, v). (y, c, s)) ?long)"
    using first_row_distinct[OF d] by blast
  with general show ?thesis by simp
qed

subsection \<open>The loader and the reshaper on three files\<close>

lemma sparse_replace: "replace_dots sparse_file = sparse_file"
  by (simp add: replace_dots_def replace_cell_def sparse_file_def)

lemma sparse_fill: "fill_missing sparse_file = sparse_file"
  by (simp add: fill_missing_def fillna_ffill_def fillna_bfill_def ffill_col_def sparse_file_def)

lemma sparse_dedup: "drop_duplicates sparse_file = sparse_file"
  by (simp add: drop_duplicates_def nrows_def duplicated_def select_rows_def sparse_file_def)

lemma sparse_trim: "drop_tail_rows 1519 sparse_file = sparse_file"
  by (simp add: drop_tail_rows_def sparse_file_def)

lemma sparse_drop: "drop_columns code_columns sparse_file = Inr sparse_cleaned"
  by (simp add: drop_columns_def code_columns_def labels_def sparse_file_def sparse_cleaned_def)

lemma sparse_convert: "convert_columns float_of year_columns sparse_cleaned = Inr sparse_cleaned"
  by (simp add: convert_columns_def year_columns_def labels_def sparse_cleaned_def)

lemma sparse_clean: "clean float_of (Csv sparse_file) = Inr sparse_cleaned"
  by (simp add: clean_def sparse_replace sparse_fill sparse_dedup sparse_trim sparse_drop sparse_convert)

lemma sparse_melt_rows: "melt_rows (Str ''Series Name'') (Str ''Country Name'') sparse_cleaned = sparse_long"
  by (simp add: melt_rows_def sparse_cleaned_def sparse_long_def)

lemma sparse_melt: "melt (Str ''Series Name'') (Str ''Country Name'') (Str ''Value'') sparse_cleaned = Inr sparse_long"
  unfolding melt_def sparse_melt_rows by (simp add: labels_def sparse_cleaned_def)

lemma sparse_grouped: "grouped sparse_long = [(Str ''CO2'', Str ''Kenya'', Str ''1980'', Num 1)]"
  by (simp add: grouped_def sparse_long_def)

lemma sparse_index: "pivot_index sparse_long = [(Str ''1980'', Str ''Kenya'')]"
  by (simp add: pivot_index_def sparse_grouped)

lemma sparse_columns: "pivot_columns sparse_long = [Str ''CO2'']"
  by (simp add: pivot_columns_def sparse_grouped)

lemma sparse_cell: "pivot_cell sparse_long (Str ''1980'') (Str ''Kenya'') (Str ''CO2'') = Num 1"
  by (simp add: pivot_cell_def first_value_def sparse_long_def)

lemma sparse_pivot_table: "pivot_table (Str ''Year'') (Str ''Country Name'') sparse_long = Inr sparse_pivot"
  by (simp add: pivot_table_def sparse_index sparse_columns sparse_cell sparse_pivot_def)

lemma sparse_read: "read_data float_of (Csv sparse_file) = Inr (sparse_cleaned, sparse_pivot)"
  by (simp add: read_data_def sparse_clean reshape_def sparse_melt sparse_pivot_table)

lemma dup_replace: "replace_dots dup_file = dup_file"
  by (simp add: replace_dots_def replace_cell_def dup_file_def)

lemma dup_fill: "fill_missing dup_file = dup_file"
  by (simp add: fill_missing_def fillna_ffill_def fillna_bfill_def ffill_col_def dup_file_def)

lemma dup_dedup: "drop_duplicates dup_file = dup_file"
  by (simp add: drop_duplicates_def nrows_def duplicated_def select_rows_def row_def dup_file_def)

lemma dup_trim: "drop_tail_rows 1519 dup_file = dup_file"
  by (simp add: drop_tail_rows_def dup_file_def)

lemma dup_drop: "drop_columns code_columns dup_file = Inr dup_cleaned"
  by (simp add: drop_columns_def code_columns_def labels_def dup_file_def dup_cleaned_def)

lemma dup_convert: "convert_columns float_of year_columns dup_cleaned = Inr dup_cleaned"
  by (simp add: convert_columns_def year_columns_def labels_def dup_cleaned_def)

lemma dup_clean: "clean float_of (Csv dup_file) = Inr dup_cleaned"
  by (simp add: clean_def dup_replace dup_fill dup_dedup dup_trim dup_drop dup_convert)

lemma dup_melt_rows: "melt_rows (Str ''Series Name'') (Str ''Country Name'') dup_cleaned = dup_long"
  by (simp add: melt_rows_def dup_cleaned_def dup_long_def)

lemma dup_melt: "melt (Str ''Series Name'') (Str ''Country Name'') (Str ''Value'') dup_cleaned = Inr dup_long"
  unfolding melt_def dup_melt_rows by (simp add: labels_def dup_cleaned_def)

lemma dup_grouped: "grouped dup_long = dup_long"
  by (simp add: grouped_def dup_long_def)

lemma dup_columns: "pivot_columns dup_long = [Str ''CO2'']"
  by (simp add: pivot_columns_def dup_grouped) (simp add: dup_long_def)

lemma dup_index: "pivot_index dup_long =
     [(Str ''1980'', Str ''Kenya''),
      (Str ''1985'', Str ''Kenya''),
      (Str ''1990'', Str ''Kenya''),
      (Str ''1995'', Str ''Kenya''),
      (Str ''2000'', Str ''Kenya''),
      (Str ''2005'', Str ''Kenya''),
      (Str ''2010'', Str ''Kenya''),
      (Str ''2015'', Str ''Kenya''),
      (Str ''2020'', Str ''Kenya'')]"
  by (simp add: pivot_index_def dup_grouped) (simp add: dup_long_def index_key_def less_eq_prod_def less_prod_def)

lemma dup_cell:
  "pivot_cell dup_long (Str ''1980'') (Str ''Kenya'') (Str ''CO2'') = Num 1"
  "pivot_cell dup_long (Str ''1985'') (Str ''Kenya'') (Str ''CO2'') = Num 1"
  "pivot_cell dup_long (Str ''1990'') (Str ''Kenya'') (Str ''CO2'') = Num 1"
  "pivot_cell dup_long (Str ''1995'') (Str ''Kenya'') (Str ''CO2'') = Num 1"
  "pivot_cell dup_long (Str ''2000'') (Str ''Kenya'') (Str ''CO2'') = Num 1"
  "pivot_cell dup_long (Str ''2005'') (Str ''Kenya'') (Str ''CO2'') = Num 1"
  "pivot_cell dup_long (Str ''2010'') (Str ''Kenya'') (Str ''CO2'') = Num 1"
  "pivot_cell dup_long (Str ''2015'') (Str ''Kenya'') (Str ''CO2'') = Num 1"
  "pivot_cell dup_long (Str ''2020'') (Str ''Kenya'') (Str ''CO2'') = Num 1"
  by (simp_all add: pivot_cell_def first_value_def dup_long_def)

lemma dup_pivot_table: "pivot_table (Str ''Year'') (Str ''Country Name'') dup_long = Inr dup_pivot"
  unfolding pivot_table_def Let_def dup_columns dup_index by (simp add: dup_pivot_def dup_cell)

lemma dup_reshape: "reshape dup_cleaned = Inr dup_pivot"
  by (simp add: reshape_def dup_melt dup_pivot_table)

lemma dup_read: "read_data float_of (Csv dup_file) = Inr (dup_cleaned, dup_pivot)"
  by (simp add: read_data_def dup_clean dup_reshape)

lemma dup_lost: "(Str ''1980'', Str ''Kenya'', Str ''CO2'', Num 2)
            \<notin> set (melt_rows (Str ''Year'') (Str ''Country Name'') dup_pivot)"
  by (simp add: melt_rows_def dup_pivot_def)

lemma sparse_reshape: "reshape sparse_cleaned = Inr sparse_pivot"
  by (simp add: reshape_def sparse_melt sparse_pivot_table)


lemma gappy_replace_fill: "fill_missing (replace_dots gappy_file) = gappy_filled"
  by (simp add: replace_dots_def replace_cell_def fill_missing_def fillna_ffill_def fillna_bfill_def
        ffill_col_def gappy_file_def gappy_filled_def)

lemma gappy_dedup: "drop_duplicates gappy_filled = gappy_filled"
  by (simp add: drop_duplicates_def nrows_def duplicated_def select_rows_def row_def gappy_filled_def
        atLeastLessThanSuc)

lemma gappy_trim: "drop_tail_rows 1519 gappy_filled = gappy_filled"
  by (simp add: drop_tail_rows_def gappy_filled_def)

lemma gappy_kept: "kept_rows gappy_file = [0, 1, 2]"
  unfolding kept_rows_def gappy_replace_fill
  by (simp add: nrows_def duplicated_def row_def gappy_filled_def atLeastLessThanSuc)

lemma gappy_drop: "drop_columns code_columns gappy_filled = Inr gappy_named"
  by (simp add: drop_columns_def code_columns_def labels_def gappy_filled_def gappy_named_def)

lemma gappy_convert: "convert_columns three_float year_columns gappy_named = Inr gappy_cleaned"
  by (simp add: convert_columns_def year_columns_def labels_def gappy_named_def gappy_cleaned_def
        three_float_def)

lemma gappy_clean: "clean three_float (Csv gappy_file) = Inr gappy_cleaned"
  by (simp add: clean_def gappy_replace_fill gappy_dedup gappy_trim gappy_drop gappy_convert)

lemma gappy_melt_rows:
  "melt_rows (Str ''Series Name'') (Str ''Country Name'') gappy_cleaned = gappy_long"
  by (simp add: melt_rows_def gappy_cleaned_def gappy_long_def)

lemma gappy_melt:
  "melt (Str ''Series Name'') (Str ''Country Name'') (Str ''Value'') gappy_cleaned = Inr gappy_long"
  unfolding melt_def gappy_melt_rows by (simp add: labels_def gappy_cleaned_def)

lemma gappy_grouped:
  "grouped gappy_long =
     [(Str ''CO2'', Str ''Chad'', Str ''1980'', Num 3), (Str ''CO2'', Str ''Kenya'', Str ''1980'', Num 3),
      (Str ''CO2'', Str ''Mali'', Str ''1980'', Num 3)]"
  by (simp add: grouped_def gappy_long_def)

lemma gappy_index:
  "pivot_index gappy_long =
     [(Str ''1980'', Str ''Chad''), (Str ''1980'', Str ''Kenya''), (Str ''1980'', Str ''Mali'')]"
  by (simp add: pivot_index_def gappy_grouped)
     (simp add: index_key_def less_eq_prod_def less_prod_def)

lemma gappy_columns: "pivot_columns gappy_long = [Str ''CO2'']"
  by (simp add: pivot_columns_def gappy_grouped)

lemma gappy_cell:
  "pivot_cell gappy_long (Str ''1980'') (Str ''Chad'') (Str ''CO2'') = Num 3"
  "pivot_cell gappy_long (Str ''1980'') (Str ''Kenya'') (Str ''CO2'') = Num 3"
  "pivot_cell gappy_long (Str ''1980'') (Str ''Mali'') (Str ''CO2'') = Num 3"
  by (simp_all add: pivot_cell_def first_value_def gappy_long_def)

lemma gappy_pivot_table:
  "pivot_table (Str ''Year'') (Str ''Country Name'') gappy_long = Inr gappy_pivot"
  unfolding pivot_table_def Let_def gappy_columns gappy_index
  by (simp add: gappy_pivot_def gappy_cell)

lemma gappy_read: "read_data three_float (Csv gappy_file) = Inr (gappy_cleaned, gappy_pivot)"
  by (simp add: read_data_def gappy_clean reshape_def gappy_melt gappy_pivot_table)

lemma gappy_wf: "wf_frame gappy_file"
  by (simp add: wf_frame_def labels_def nrows_def gappy_file_def)

text \<open>
  Claim C2 as stated fails: for the file \<open>sparse_file\<close> the input has nine
  (year, country) pairs and the pivoted table one row.
\<close>

theorem reshaper_size_counterexample:
  "read_data (\<lambda>s. None) (Csv sparse_file) = Inr (sparse_cleaned, sparse_pivot)
   \<and> nrows sparse_pivot = 1
   \<and> card ((\<lambda>(s, c, y, v). (y, c)) `
             set (melt_rows (Str ''Series Name'') (Str ''Country Name'') sparse_cleaned)) = 9"
  using sparse_read[of "\<lambda>s. None"]
  by (simp add: sparse_melt_rows) (simp add: sparse_pivot_def sparse_long_def nrows_def)

theorem reshaper_size_witness:
  "read_data (\<lambda>s. None) (Csv dup_file) = Inr (dup_cleaned, dup_pivot)
   \<and> nrows dup_pivot =
         card ((\<lambda>(s, c, y, v). (y, c)) `
               set (grouped (melt_rows (Str ''Series Name'') (Str ''Country Name'') dup_cleaned)))
   \<and> length dup_pivot =
         card ((\<lambda>(s, c, y, v). s) `
               set (grouped (melt_rows (Str ''Series Name'') (Str ''Country Name'') dup_cleaned))) + 2"
  using reshaper_size[OF dup_read[of "\<lambda>s. None"]] dup_read[of "\<lambda>s. None"] by blast

text \<open>
  Claim C1 as stated fails: the two rows of \<open>dup_file\<close> survive the cleaning, the long form
  has the value 2 for (1980, Kenya, CO2), and the pivoted table, which keeps the first
  value of a group, does not.
\<close>

theorem reshape_round_trip_counterexample:
  "read_data (\<lambda>s. None) (Csv dup_file) = Inr (dup_cleaned, dup_pivot)
   \<and> (Str ''CO2'', Str ''Kenya'', Str ''1980'', Num 2)
       \<in> set (melt_rows (Str ''Series Name'') (Str ''Country Name'') dup_cleaned)
   \<and> (Str ''1980'', Str ''Kenya'', Str ''CO2'', Num 2)
       \<notin> set (melt_rows (Str ''Year'') (Str ''Country Name'') dup_pivot)"
  using dup_read[of "\<lambda>s. None"] dup_lost by (simp add: dup_melt_rows dup_long_def)

theorem reshape_round_trip_witness:
  "reshape sparse_cleaned = Inr sparse_pivot
   \<and> distinct (map (\<lambda>(s, c, y, v). (y, c, s))
                   (melt_rows (Str ''Series Name'') (Str ''Country Name'') sparse_cleaned))
   \<and> {(y, c, s, v). (y, c, s, v) \<in> set (melt_rows (Str ''Year'') (Str ''Country Name'') sparse_pivot)
                      \<and> \<not> isna v}
     = {(y, c, s, v). (s, c, y, v) \<in> set (melt_rows (Str ''Series Name'') (Str ''Country Name'') sparse_cleaned)
                      \<and> \<not> isna y \<and> \<not> isna c \<and> \<not> isna s \<and> \<not> isna v}
   \<and> reshape dup_cleaned = Inr dup_pivot
   \<and> (Str ''1980'', Str ''Kenya'', Str ''CO2'', Num 1)
       \<in> set (melt_rows (Str ''Year'') (Str ''Country Name'') dup_pivot)"
proof -
  have d: "distinct (map (\<lambda>(s, c, y, v). (y, c, s))
                   (melt_rows (Str ''Series Name'') (Str ''Country Name'') sparse_cleaned))"
    by (simp add: sparse_melt_rows) (simp add: sparse_long_def)
  have a: "{(y, c, s, v). (y, c, s, v) \<in> set (melt_rows (Str ''Year'') (Str ''Country Name'') sparse_pivot)
                      \<and> \<not> isna v}
     = {(y, c, s, v). (s, c, y, v) \<in> set (melt_rows (Str ''Series Name'') (Str ''Country Name'') sparse_cleaned)
                      \<and> \<not> isna y \<and> \<not> isna c \<and> \<not> isna s \<and> \<not> isna v}"
    by (rule mp[OF conjunct2[OF reshape_round_trip[OF sparse_reshape]] d])
  have "\<exists>pre post. dup_long = pre @ (Str ''CO2'', Str ''Kenya'', Str ''1980'', Num 1) # post
          \<and> (\<forall>(s', c', y', v') \<in> set pre.
                s' = Str ''CO2'' \<and> c' = Str ''Kenya'' \<and> y' = Str ''1980'' \<longrightarrow> isna v')"
    by (rule exI[of _ "[]"]) (simp add: dup_long_def)
  then have "(Str ''1980'', Str ''Kenya'', Str ''CO2'', Num 1)
      \<in> {(y, c, s, v). \<not> isna y \<and> \<not> isna c \<and> \<not> isna s \<and> \<not> isna v
            \<and> (\<exists>pre post.
                  melt_rows (Str ''Series Name'') (Str ''Country Name'') dup_cleaned = pre @ (s, c, y, v) # post
                  \<and> (\<forall>(s', c', y', v') \<in> set pre. s' = s \<and> c' = c \<and> y' = y \<longrightarrow> isna v'))}"
    by (simp add: dup_melt_rows)
  then have "(Str ''1980'', Str ''Kenya'', Str ''CO2'', Num 1)
      \<in> {(y, c, s, v). (y, c, s, v) \<in> set (melt_rows (Str ''Year'') (Str ''Country Name'') dup_pivot)
                        \<and> \<not> isna v}"
    unfolding conjunct1[OF reshape_round_trip[OF dup_reshape]] .
  then have b: "(Str ''1980'', Str ''Kenya'', Str ''CO2'', Num 1)
       \<in> set (melt_rows (Str ''Year'') (Str ''Country Name'') dup_pivot)" by simp
  show ?thesis
    by (intro conjI) (rule sparse_reshape d a dup_reshape b)+
qed

theorem fill_policy_witness:
  "read_data three_float (Csv gappy_file) = Inr (gappy_cleaned, gappy_pivot)
   \<and> wf_frame gappy_file
   \<and> (Str ''1980'', [Str ''..'', Str ''3'', Str ''..'']) \<in> set gappy_file
   \<and> Str ''1980'' \<notin> set code_columns
   \<and> kept_rows gappy_file = [0, 1, 2]
   \<and> map_of gappy_cleaned (Str ''1980'') = Some [Num 3, Num 3, Num 3]
   \<and> (\<exists>ys src. map_of gappy_cleaned (Str ''1980'') = Some ys
         \<and> astype_float three_float src = Inr (ys ! 0) \<and> src = Str ''3'')
   \<and> (\<exists>ys src. map_of gappy_cleaned (Str ''1980'') = Some ys
         \<and> astype_float three_float src = Inr (ys ! 2) \<and> src = Str ''3'')"
proof -
  let ?xs = "[Str ''..'', Str ''3'', Str ''..'']"
  have col: "(Str ''1980'', ?xs) \<in> set gappy_file" by (simp add: gappy_file_def)
  have nc: "Str ''1980'' \<notin> set code_columns" by (simp add: code_columns_def)
  have y: "Str ''1980'' \<in> set year_columns" by (simp add: year_columns_def)
  have p0: "0 < length (kept_rows gappy_file)" and p2: "2 < length (kept_rows gappy_file)"
    by (simp_all add: gappy_kept)
  have m: "map_of gappy_cleaned (Str ''1980'') = Some [Num 3, Num 3, Num 3]"
    by (simp add: gappy_cleaned_def)
  have r: "replace_cell (Str ''..'') = NA" "replace_cell (Str ''3'') = Str ''3''"
    by (simp_all add: replace_cell_def)
  from fill_policy[OF gappy_read gappy_wf col nc p0] obtain ys src where
    a: "map_of gappy_cleaned (Str ''1980'') = Some ys"
       "astype_float three_float src = Inr (ys ! 0)"
    and b: "isna (replace_cell (?xs ! 0)) \<and> (\<forall>j<0. isna (replace_cell (?xs ! j)))
            \<and> (\<exists>j<length ?xs. \<not> isna (replace_cell (?xs ! j))) \<longrightarrow>
            (\<exists>j. 0 < j \<and> j < length ?xs \<and> \<not> isna (replace_cell (?xs ! j))
                  \<and> (\<forall>k. 0 < k \<and> k < j \<longrightarrow> isna (replace_cell (?xs ! k))) \<and> src = ?xs ! j)"
    using y by (auto simp: gappy_kept Let_def)
  have "\<exists>j<length ?xs. \<not> isna (replace_cell (?xs ! j))"
    by (rule exI[of _ 1]) (simp add: r)
  with b obtain j where j: "0 < j" "j < length ?xs" "\<not> isna (replace_cell (?xs ! j))" "src = ?xs ! j"
    by (auto simp: r)
  from j(1,2) have "j = 1 \<or> j = 2" by auto
  with j(3,4) have s0: "src = Str ''3''" by (auto simp: r)
  from fill_policy[OF gappy_read gappy_wf col nc p2] obtain ys' src' where
    a': "map_of gappy_cleaned (Str ''1980'') = Some ys'"
       "astype_float three_float src' = Inr (ys' ! 2)"
    and b': "isna (replace_cell (?xs ! 2)) \<and> (\<exists>j<2. \<not> isna (replace_cell (?xs ! j))) \<longrightarrow>
            (\<exists>j<2. \<not> isna (replace_cell (?xs ! j))
                  \<and> (\<forall>k. j < k \<and> k < 2 \<longrightarrow> isna (replace_cell (?xs ! k))) \<and> src' = ?xs ! j)"
    using y by (auto simp: gappy_kept Let_def)
  have "\<exists>j<2. \<not> isna (replace_cell (?xs ! j))"
    by (rule exI[of _ 1]) (simp add: r)
  with b' obtain j' where j': "j' < 2" "\<not> isna (replace_cell (?xs ! j'))" "src' = ?xs ! j'"
    by (auto simp: r)
  from j'(1) have "j' = 0 \<or> j' = 1" by auto
  with j'(2,3) have s2: "src' = Str ''3''" by (auto simp: r)
  from gappy_read gappy_wf col nc gappy_kept m a s0 a' s2 show ?thesis by blast
qed

section \<open>Properties of the plots and of the clustering\<close>

lemma visualize_one_heap:
  "take (length h) (fst (visualize_one tie data_frame indicator h)) = h"
  by (auto simp: visualize_one_def alloc_def Let_def split: sum.splits prod.splits)

lemma visualize_one_length:
  "length h \<le> length (fst (visualize_one tie data_frame indicator h))"
  by (auto simp: visualize_one_def alloc_def Let_def split: sum.splits prod.splits)

lemma visualize_loop_heap:
  "take (length h) (fst (visualize_loop tie data_frame indicators h figs)) = h"
proof (induction indicators arbitrary: h figs)
  case Nil
  then show ?case by simp
next
  case (Cons i rest)
  obtain h' res where v: "visualize_one tie data_frame i h = (h', res)" by (cases "visualize_one tie data_frame i h")
  have t: "take (length h) h' = h" and l: "length h \<le> length h'"
    using visualize_one_heap[of h tie data_frame i] visualize_one_length[of h tie data_frame i] v by simp_all
  show ?case
  proof (cases res)
    case (Inl e)
    with v t show ?thesis by simp
  next
    case (Inr fig)
    have "take (length h') (fst (visualize_loop tie data_frame rest h' (figs @ [fig]))) = h'"
      by (rule Cons.IH)
    then have "take (length h) (fst (visualize_loop tie data_frame rest h' (figs @ [fig]))) = h"
      using t l by (metis min.absorb1 take_take)
    with v Inr show ?thesis by simp
  qed
qed

lemma nth_of_take: "take n h' = h \<Longrightarrow> r < length h \<Longrightarrow> h' ! r = h ! r"
  by (metis length_take min_less_iff_conj nth_take)

lemma cluster_data_heap:
  "take (length h) (fst (cluster_data centre ambient df n_clusters h)) = h"
  by (auto simp: cluster_data_def alloc_def Let_def split: sum.splits prod.splits)

lemma labels_set_column: "l \<in> set (labels (set_column l vs df))"
  by (auto simp: set_column_def labels_def image_iff split: prod.splits)

lemma argmin_less: "ds \<noteq> [] \<Longrightarrow> argmin ds < length ds"
  by (induction ds rule: argmin.induct) (auto simp: Let_def)

lemma kmeans_fit_labels:
  assumes "kmeans_fit centre n_clusters g df = Inr ls"
  shows "1 \<le> n_clusters" and "\<forall>l \<in> set ls. int l < n_clusters"
proof -
  from assms show k: "1 \<le> n_clusters"
    by (auto simp: kmeans_fit_def split: if_splits)
  from assms obtain X where
    ls: "ls = map (\<lambda>x. argmin (map (\<lambda>j. sqdist x (centre g X (nat n_clusters) j)) [0..<nat n_clusters])) X"
    by (auto simp: kmeans_fit_def split: if_splits sum.splits)
  have "int (argmin (map f [0..<nat n_clusters])) < n_clusters" for f :: "nat \<Rightarrow> real"
    using argmin_less[of "map f [0..<nat n_clusters]"] k by simp
  then show "\<forall>l \<in> set ls. int l < n_clusters"
    unfolding ls using k by auto
qed

lemma map_of_set_column: "map_of (set_column l vs df) l = Some vs"
proof (cases "l \<in> set (labels df)")
  case True
  then show ?thesis
    by (induction df) (auto simp: set_column_def labels_def)
next
  case False
  then have "map_of df l = None" by (simp add: labels_def map_of_eq_None_iff)
  with False show ?thesis by (simp add: set_column_def map_add_def)
qed

lemma cluster_data_result:
  assumes "cluster_data centre ambient df n_clusters h = (h', Inr (c, nd))"
  shows "c = length h" and "length h' = Suc (length h)"
    and "\<exists>ls. kmeans_fit centre n_clusters (RandomState 0 0) nd = Inr ls
              \<and> h' ! c = set_column (Str ''Cluster'') (map (\<lambda>l. Num (real l)) ls) (h ! df)"
  using assms
  by (auto simp: cluster_data_def alloc_def Let_def nth_append split: sum.splits prod.splits)

text \<open>
  Claim C8. When \<^verbatim>\<open>cluster_data\<close> returns, the column \<^verbatim>\<open>Cluster\<close> of the frame it returns
  holds, for every row, an integer label from 0 up to \<open>n_clusters - 1\<close>; for one cluster
  every label is 0.
\<close>

theorem cluster_label_range:
  assumes "cluster_data centre ambient df n_clusters h = (h', Inr (c, nd))"
  shows "\<exists>ls. map_of (h' ! c) (Str ''Cluster'') = Some (map (\<lambda>l. Num (real l)) ls)
            \<and> (\<forall>l \<in> set ls. 0 \<le> int l \<and> int l < n_clusters)
            \<and> (n_clusters = 1 \<longrightarrow> (\<forall>l \<in> set ls. l = 0))"
proof -
  from cluster_data_result(3)[OF assms] obtain ls where
    k: "kmeans_fit centre n_clusters (RandomState 0 0) nd = Inr ls"
    and c: "h' ! c = set_column (Str ''Cluster'') (map (\<lambda>l. Num (real l)) ls) (h ! df)"
    by blast
  have m: "map_of (h' ! c) (Str ''Cluster'') = Some (map (\<lambda>l. Num (real l)) ls)"
    by (simp add: c map_of_set_column)
  have r: "\<forall>l \<in> set ls. int l < n_clusters" by (rule kmeans_fit_labels(2)[OF k])
  then have "n_clusters = 1 \<longrightarrow> (\<forall>l \<in> set ls. l = 0)" by auto
  with m r show ?thesis by auto
qed

text \<open>
  Claim C9. \<^verbatim>\<open>cluster_data\<close> seeds the generator of \<^verbatim>\<open>KMeans\<close> with the constant 0, so two runs
  on the same frame give the same heap, the same labels and the same normalised matrix,
  whatever the state of the generator of the process at each run.
\<close>

theorem clustering_deterministic:
  "cluster_data centre ambient df n_clusters h = cluster_data centre ambient' df n_clusters h"
  by (simp add: cluster_data_def)

lemma scale_column_length [simp]: "length (fst (scale_column cs)) = length cs"
proof (cases "[x. Num x \<leftarrow> cs]")
  case Nil
  show ?thesis unfolding scale_column_def Nil by simp
next
  case (Cons x xs)
  show ?thesis unfolding scale_column_def Cons by (simp add: Let_def)
qed

lemma scale_column_finite:
  "list_ex (\<lambda>c. \<not> is_finite c) (fst (scale_column cs)) = list_ex (\<lambda>c. \<not> is_finite c) cs"
proof (cases "[x. Num x \<leftarrow> cs]")
  case Nil
  show ?thesis unfolding scale_column_def Nil by simp
next
  case (Cons x xs)
  have "\<not> is_finite (case c of Num v \<Rightarrow> Num (f v) | _ \<Rightarrow> c) \<longleftrightarrow> \<not> is_finite c" for c f
    by (cases c) auto
  then show ?thesis
    unfolding scale_column_def Cons by (simp add: Let_def list_ex_iff)
qed

lemma check_array_scaler:
  "(\<exists>X. check_array (fst (scaler df)) = Inr X \<and> length X = nrows df) \<or>
   (check_array (fst (scaler df)) = Inl ValueError \<and> check_array df = Inl ValueError)"
proof -
  have n: "nrows (fst (scaler df)) = nrows df"
    by (cases df) (auto simp: scaler_def nrows_def)
  have e: "fst (scaler df) = [] \<longleftrightarrow> df = []" by (simp add: scaler_def)
  have f: "list_ex (\<lambda>(l, cs). list_ex (\<lambda>c. \<not> is_finite c) cs) (fst (scaler df))
         = list_ex (\<lambda>(l, cs). list_ex (\<lambda>c. \<not> is_finite c) cs) df"
    by (induction df) (auto simp: scaler_def scale_column_finite)
  show ?thesis
    unfolding check_array_def n e f by simp
qed

text \<open>
  Claim C5, as amended. \<^verbatim>\<open>cluster_data\<close> validates nothing itself. With \<open>n_clusters\<close> below 1
  it fails with the \<open>InvalidParameterError\<close> of scikit-learn; with \<open>n_clusters\<close> above the
  number of rows it fails with \<^verbatim>\<open>ValueError\<close>; with \<open>n_clusters\<close> from 1 to the number of
  rows, on a frame whose numeric part has a column, a row and no missing value, it
  returns, whatever the number of distinct rows.
\<close>

theorem cluster_count_validation:
  "(n_clusters < 1 \<longrightarrow>
      snd (cluster_data centre ambient df n_clusters h) = Inl InvalidParameterError)
   \<and> (1 \<le> n_clusters \<and> int (nrows (select_numeric (h ! df))) < n_clusters \<longrightarrow>
      snd (cluster_data centre ambient df n_clusters h) = Inl ValueError)
   \<and> (1 \<le> n_clusters \<and> n_clusters \<le> int (nrows (select_numeric (h ! df)))
        \<and> check_array (select_numeric (h ! df)) \<noteq> Inl ValueError \<longrightarrow>
      (\<exists>c nd. snd (cluster_data centre ambient df n_clusters h) = Inr (c, nd)))"
proof -
  let ?M = "select_numeric (h ! df)"
  have cd: "snd (cluster_data centre ambient df n_clusters h) =
            (case kmeans_fit centre n_clusters (RandomState 0 0) (fst (scaler ?M)) of
               Inl e \<Rightarrow> Inl e | Inr ls \<Rightarrow> Inr (length h, fst (scaler ?M)))"
    by (auto simp: cluster_data_def alloc_def Let_def split: sum.splits prod.splits)
  show ?thesis
    using check_array_scaler[of ?M]
    by (auto simp: cd kmeans_fit_def split: sum.splits)
qed

text \<open>
  Claim C10. \<^verbatim>\<open>visualize\<close> leaves the frame it receives as it was, whether it ends with an
  exception or not and whatever order the sort gives to equal ranks, and so does \<^verbatim>\<open>cluster_data\<close>: the frame it returns is another object,
  the copy, and the column \<^verbatim>\<open>Cluster\<close> is in that copy.
\<close>

theorem inputs_not_mutated:
  assumes "df < length h"
  shows "fst (visualize tie df indicators h) ! df = h ! df
       \<and> fst (cluster_data centre ambient df n_clusters h) ! df = h ! df
       \<and> (\<forall>c nd. snd (cluster_data centre ambient df n_clusters h) = Inr (c, nd) \<longrightarrow>
             c \<noteq> df \<and> Str ''Cluster'' \<in> set (labels (fst (cluster_data centre ambient df n_clusters h) ! c)))"
proof (intro conjI allI impI)
  show "fst (visualize tie df indicators h) ! df = h ! df"
    unfolding visualize_def using visualize_loop_heap assms by (rule nth_of_take)
  show "fst (cluster_data centre ambient df n_clusters h) ! df = h ! df"
    using cluster_data_heap assms by (rule nth_of_take)
next
  fix c nd
  assume s: "snd (cluster_data centre ambient df n_clusters h) = Inr (c, nd)"
  then have e: "cluster_data centre ambient df n_clusters h =
                  (fst (cluster_data centre ambient df n_clusters h), Inr (c, nd))"
    by (metis prod.collapse)
  from cluster_data_result(1)[OF e] assms show "c \<noteq> df" by simp
  from cluster_data_result(3)[OF e]
  show "Str ''Cluster'' \<in> set (labels (fst (cluster_data centre ambient df n_clusters h) ! c))"
    using labels_set_column by auto
qed


subsection \<open>The clustering on three rows\<close>

lemma three_numeric: "select_numeric three_rows = [(Str ''CO2'', [Num 0, Num 0, Num 1])]"
  by (simp add: select_numeric_def three_rows_def)

lemma three_scaled:
  "scaler [(Str ''CO2'', [Num 0, Num 0, Num 1])] =
     ([(Str ''CO2'', [Num 0, Num 0, Num 1])], [(Str ''CO2'', [Num 0])], [(Str ''CO2'', [Num 1])])"
  by (simp add: scaler_def scale_column_def Let_def)

lemma three_matrix: "check_array [(Str ''CO2'', [Num 0, Num 0, Num 1])] = Inr [[0], [0], [1]]"
  by (simp add: check_array_def nrows_def numeral_eq_Suc)

lemma three_fit_3:
  "kmeans_fit first_rows 3 g [(Str ''CO2'', [Num 0, Num 0, Num 1])] = Inr [0, 0, 2]"
  by (simp add: kmeans_fit_def three_matrix first_rows_def sqdist_def numeral_eq_Suc Let_def)

lemma three_fit_4:
  "kmeans_fit centre 4 g [(Str ''CO2'', [Num 0, Num 0, Num 1])] = Inl ValueError"
  by (simp add: kmeans_fit_def three_matrix)

lemma three_cluster_3:
  "cluster_data first_rows g 0 3 [three_rows] =
     ([three_rows, three_rows @ [(Str ''Cluster'', [Num 0, Num 0, Num 2])]],
      Inr (1, [(Str ''CO2'', [Num 0, Num 0, Num 1])]))"
  by (simp add: cluster_data_def alloc_def three_numeric three_scaled three_fit_3)
     (simp add: set_column_def labels_def three_rows_def)

lemma three_cluster_4:
  "snd (cluster_data centre g 0 4 [three_rows]) = Inl ValueError"
  by (simp add: cluster_data_def alloc_def three_numeric three_scaled three_fit_4)

lemma three_distinct: "card (set (rows (select_numeric three_rows))) = 2"
  by (simp add: three_numeric rows_def row_def nrows_def numeral_eq_Suc)

lemma three_fit_1:
  "kmeans_fit first_rows 1 g [(Str ''CO2'', [Num 0, Num 0, Num 1])] = Inr [0, 0, 0]"
  by (simp add: kmeans_fit_def three_matrix first_rows_def sqdist_def)

lemma three_cluster_1:
  "cluster_data first_rows g 0 1 [three_rows] =
     ([three_rows, three_rows @ [(Str ''Cluster'', [Num 0, Num 0, Num 0])]],
      Inr (1, [(Str ''CO2'', [Num 0, Num 0, Num 1])]))"
  by (simp add: cluster_data_def alloc_def three_numeric three_scaled three_fit_1)
     (simp add: set_column_def labels_def three_rows_def)

text \<open>
  Claim C5 as stated fails: the three rows of \<open>three_rows\<close> have two distinct values, and
  \<^verbatim>\<open>cluster_data\<close> returns for three clusters; for four clusters it fails with
  \<^verbatim>\<open>ValueError\<close>.
\<close>

theorem cluster_count_validation_counterexample:
  "card (set (rows (select_numeric three_rows))) = 2
   \<and> cluster_data first_rows (RandomState 0 0) 0 3 [three_rows] =
       ([three_rows, three_rows @ [(Str ''Cluster'', [Num 0, Num 0, Num 2])]],
        Inr (1, [(Str ''CO2'', [Num 0, Num 0, Num 1])]))
   \<and> snd (cluster_data first_rows (RandomState 0 0) 0 4 [three_rows]) = Inl ValueError"
  using three_distinct three_cluster_3[of "RandomState 0 0"] three_cluster_4[of first_rows "RandomState 0 0"]
  by blast

theorem cluster_count_validation_witness:
  "snd (cluster_data first_rows (RandomState 0 0) 0 0 [three_rows]) = Inl InvalidParameterError
   \<and> snd (cluster_data first_rows (RandomState 0 0) 0 4 [three_rows]) = Inl ValueError
   \<and> (\<exists>c nd. snd (cluster_data first_rows (RandomState 0 0) 0 2 [three_rows]) = Inr (c, nd))"
proof -
  have n: "int (nrows (select_numeric ([three_rows] ! 0))) = 3"
    by (simp add: three_numeric nrows_def)
  have a: "check_array (select_numeric ([three_rows] ! 0)) \<noteq> Inl ValueError"
    by (simp add: three_numeric three_matrix)
  show ?thesis
    using cluster_count_validation[of 0 first_rows "RandomState 0 0" 0 "[three_rows]"]
      cluster_count_validation[of 4 first_rows "RandomState 0 0" 0 "[three_rows]"]
      cluster_count_validation[of 2 first_rows "RandomState 0 0" 0 "[three_rows]"] n a
    by simp
qed

theorem cluster_label_range_witness:
  "cluster_data first_rows (RandomState 0 0) 0 3 [three_rows] =
     ([three_rows, three_rows @ [(Str ''Cluster'', [Num 0, Num 0, Num 2])]],
      Inr (1, [(Str ''CO2'', [Num 0, Num 0, Num 1])]))
   \<and> (\<exists>ls. map_of ([three_rows, three_rows @ [(Str ''Cluster'', [Num 0, Num 0, Num 2])]] ! 1)
               (Str ''Cluster'') = Some (map (\<lambda>l. Num (real l)) ls)
           \<and> (\<forall>l \<in> set ls. 0 \<le> int l \<and> int l < 3))
   \<and> (\<exists>ls. map_of ([three_rows, three_rows @ [(Str ''Cluster'', [Num 0, Num 0, Num 0])]] ! 1)
               (Str ''Cluster'') = Some (map (\<lambda>l. Num (real l)) ls)
           \<and> (\<forall>l \<in> set ls. l = 0))"
  using cluster_label_range[OF three_cluster_3[of "RandomState 0 0"]]
    cluster_label_range[OF three_cluster_1[of "RandomState 0 0"]]
    three_cluster_3[of "RandomState 0 0"]
  by blast

theorem inputs_not_mutated_witness:
  "(0::nat) < length [three_rows]
   \<and> fst (visualize (\<lambda>ks i. i) 0 [Str ''CO2''] [three_rows]) ! 0 = three_rows
   \<and> fst (cluster_data first_rows (RandomState 0 0) 0 3 [three_rows]) ! 0 = three_rows
   \<and> snd (cluster_data first_rows (RandomState 0 0) 0 3 [three_rows])
       = Inr (1, [(Str ''CO2'', [Num 0, Num 0, Num 1])])
   \<and> Str ''Cluster'' \<in> set (labels (fst (cluster_data first_rows (RandomState 0 0) 0 3 [three_rows]) ! 1))"
proof -
  have l: "(0::nat) < length [three_rows]" by simp
  have s: "snd (cluster_data first_rows (RandomState 0 0) 0 3 [three_rows])
       = Inr (1, [(Str ''CO2'', [Num 0, Num 0, Num 1])])"
    by (simp add: three_cluster_3)
  from inputs_not_mutated[OF l, of "\<lambda>ks i. i" "[Str ''CO2'']" first_rows "RandomState 0 0" 3] l s
  show ?thesis by simp
qed

section \<open>Properties of the fit\<close>

lemma map_zip_map2: "map (\<lambda>(p, s). h p s) (zip (map f xs) (map g xs)) = map (\<lambda>x. h (f x) (g x)) xs"
  by (induction xs) auto

lemma fit_model_with_errors_Inr:
  assumes "fit_model_with_errors lib x y func initial_guess alpha = Inr r"
  shows "curve_fit lib func x y initial_guess = Inr (popt r, pcov r)"
    and "predictions_curve_fit r = map (\<lambda>xi. func xi (popt r)) x"
    and "lowerbound_curve_fit r =
           map (\<lambda>xi. func xi (popt r) - sqrt (quad_form (jacobian lib func xi (popt r)) (pcov r))) x"
    and "upperbound_curve_fit r =
           map (\<lambda>xi. func xi (popt r) + sqrt (quad_form (jacobian lib func xi (popt r)) (pcov r))) x"
  using assms
  by (auto simp: fit_model_with_errors_def Let_def error_prop_def map_zip_map2 split: sum.splits)

text \<open>
  Claim C6. When \<^verbatim>\<open>fit_model_with_errors\<close> returns, the band of the nonlinear fit is, at
  every \<open>x\<close>, the prediction minus and plus \<open>sigma(x)\<close>, the square root of \<open>J \<Sigma> J\<^sup>T\<close> for
  the covariance matrix \<open>\<Sigma>\<close> that \<^verbatim>\<open>curve_fit\<close> returned and the Jacobian \<open>J\<close> of the fitted
  function at \<open>x\<close>; the band is the same for every significance level \<open>alpha\<close>, so no
  critical value scales it.
\<close>

theorem confidence_band_formula:
  assumes "fit_model_with_errors lib x y func initial_guess alpha = Inr r"
  shows "curve_fit lib func x y initial_guess = Inr (popt r, pcov r)
       \<and> predictions_curve_fit r = map (\<lambda>xi. func xi (popt r)) x
       \<and> lowerbound_curve_fit r =
           map (\<lambda>xi. func xi (popt r) - sqrt (quad_form (jacobian lib func xi (popt r)) (pcov r))) x
       \<and> upperbound_curve_fit r =
           map (\<lambda>xi. func xi (popt r) + sqrt (quad_form (jacobian lib func xi (popt r)) (pcov r))) x
       \<and> (\<forall>alpha' r'. fit_model_with_errors lib x y func initial_guess alpha' = Inr r' \<longrightarrow>
             lowerbound_curve_fit r' = lowerbound_curve_fit r
             \<and> upperbound_curve_fit r' = upperbound_curve_fit r)"
proof (intro conjI allI impI)
  fix alpha' r'
  assume a: "fit_model_with_errors lib x y func initial_guess alpha' = Inr r'"
  have "popt r' = popt r \<and> pcov r' = pcov r"
    using fit_model_with_errors_Inr(1)[OF a] fit_model_with_errors_Inr(1)[OF assms] by simp
  then show "lowerbound_curve_fit r' = lowerbound_curve_fit r"
    and "upperbound_curve_fit r' = upperbound_curve_fit r"
    using fit_model_with_errors_Inr(3,4)[OF a] fit_model_with_errors_Inr(3,4)[OF assms] by simp_all
qed (use fit_model_with_errors_Inr[OF assms] in simp_all)

lemma toy_fit:
  "fit_model_with_errors toy_numerics [1] [3] (\<lambda>x p. linear_function x (p ! 0) (p ! 1)) None a =
     Inr \<lparr>popt = [2, 1], pcov = [[4, 0], [0, 0]], predictions_curve_fit = [3],
          predictions_ols = [1], lowerbound_curve_fit = [1], upperbound_curve_fit = [5],
          lowerbound_ols = [1 - a], upperbound_ols = [1 + a]\<rparr>"
  by (simp add: fit_model_with_errors_def toy_numerics_def error_prop_def quad_form_def
      linear_function_def numeral_eq_Suc Let_def)

theorem confidence_band_formula_witness:
  "fit_model_with_errors toy_numerics [1] [3] (\<lambda>x p. linear_function x (p ! 0) (p ! 1)) None (1/20) =
     Inr \<lparr>popt = [2, 1], pcov = [[4, 0], [0, 0]], predictions_curve_fit = [3],
          predictions_ols = [1], lowerbound_curve_fit = [1], upperbound_curve_fit = [5],
          lowerbound_ols = [1 - 1/20], upperbound_ols = [1 + 1/20]\<rparr>
   \<and> fit_model_with_errors toy_numerics [1] [3] (\<lambda>x p. linear_function x (p ! 0) (p ! 1)) None (1/10) =
     Inr \<lparr>popt = [2, 1], pcov = [[4, 0], [0, 0]], predictions_curve_fit = [3],
          predictions_ols = [1], lowerbound_curve_fit = [1], upperbound_curve_fit = [5],
          lowerbound_ols = [1 - 1/10], upperbound_ols = [1 + 1/10]\<rparr>
   \<and> [1] = map (\<lambda>xi. linear_function xi ([2, 1] ! 0) ([2, 1] ! 1)
                       - sqrt (quad_form (jacobian toy_numerics
                                 (\<lambda>x p. linear_function x (p ! 0) (p ! 1)) xi [2, 1])
                               [[4, 0], [0, 0]])) [1::real]"
  using confidence_band_formula[OF toy_fit[of "1/20"]] toy_fit[of "1/20"] toy_fit[of "1/10"]
  by simp






end
